theory Spec2Isabelle
  imports Main
begin

section \<open>Values shared by both source files\<close>

text \<open>
  JSON values, as \<^verbatim>\<open>json.loads\<close> produces them and \<^verbatim>\<open>render_json\<close> consumes them.
  A JSON object is a Python \<^verbatim>\<open>dict\<close>: an association list in insertion order.
  Floating-point numbers play no part in the properties below and are left out.
\<close>

datatype json =
    JNull
  | JBool bool
  | JNum int
  | JStr string
  | JList "json list"
  | JObj "(string \<times> json) list"

text \<open>
  The exceptions the two files can raise or let through. \<open>ServiceError\<close> stands for any
  exception raised inside the domain-service layer, \<open>OtherIOError\<close> for an I/O failure
  that is not a missing file, \<open>ModuleNotFoundError\<close> for a package the import system
  cannot find.
\<close>

datatype exn =
    FileNotFoundError string
  | ModuleNotFoundError string
  | OtherIOError string
  | UnicodeDecodeError
  | JSONDecodeError
  | KeyError string
  | IndexError
  | UnauthorizedUserException string
  | InvalidInputException string
  | PageNotFoundException
  | ServiceError string

section \<open>core/constants.py\<close>

subsection \<open>The Python string operations the loader relies on\<close>

text \<open>
  A Python \<^verbatim>\<open>str\<close> is modelled as a \<open>string\<close>; the loader only ever compares
  characters with the space, the slash, the two braces and the newline, so nothing
  depends on the size of the alphabet.
\<close>

definition newline :: char where
  "newline = CHR 0x0A"

text \<open>
  \<^verbatim>\<open>s.find(sub)\<close>: the lowest index at which \<open>sub\<close> occurs, and \<open>-1\<close> when it does not
  occur. The counter \<open>n\<close> is the index of the head of the text still to be searched.
\<close>

fun find_from :: "string \<Rightarrow> string \<Rightarrow> nat \<Rightarrow> int" where
  "find_from sub [] n = (if sub = [] then int n else - 1)"
| "find_from sub (c # cs) n =
     (if take (length sub) (c # cs) = sub then int n else find_from sub cs (Suc n))"

definition py_find :: "string \<Rightarrow> string \<Rightarrow> int" where
  "py_find s sub = find_from sub s 0"

text \<open>\<^verbatim>\<open>s.rfind(sub)\<close>: the highest index at which \<open>sub\<close> occurs, \<open>-1\<close> when there is none.\<close>

fun rfind_from :: "string \<Rightarrow> string \<Rightarrow> nat \<Rightarrow> int" where
  "rfind_from sub [] n = (if sub = [] then int n else - 1)"
| "rfind_from sub (c # cs) n =
     (let r = rfind_from sub cs (Suc n) in
      if r \<noteq> - 1 then r
      else if take (length sub) (c # cs) = sub then int n else - 1)"

definition py_rfind :: "string \<Rightarrow> string \<Rightarrow> int" where
  "py_rfind s sub = rfind_from sub s 0"

text \<open>
  \<^verbatim>\<open>s[a:b]\<close>: a negative bound counts from the end, every bound is clamped to the
  length, and an upper bound at or below the lower one gives the empty string.
\<close>

definition slice_bound :: "int \<Rightarrow> nat \<Rightarrow> nat" where
  "slice_bound a n = (if a < 0 then nat (max (a + int n) 0) else min (nat a) n)"

definition py_slice :: "'a list \<Rightarrow> int \<Rightarrow> int \<Rightarrow> 'a list" where
  "py_slice s a b =
     (let lo = slice_bound a (length s); hi = slice_bound b (length s)
      in take (hi - lo) (drop lo s))"

subsection \<open>remove_comments\<close>

text \<open>
  \<^verbatim>\<open>re.sub(r'  //.*\n', r'', text)\<close>. The scan goes left to right. At a position where
  the text reads two spaces and two slashes, and a newline follows somewhere later, the
  match runs to the first such newline (the dot does not match a newline) and is dropped,
  newline included; the scan goes on behind it. At any other position the character is
  kept. A comment on a last line that has no newline is not matched.
\<close>

function remove_comments :: "string \<Rightarrow> string" where
  "remove_comments [] = []"
| "remove_comments (c # cs) =
     (if take 4 (c # cs) = ''  //'' \<and> newline \<in> set (drop 4 (c # cs))
      then remove_comments (tl (dropWhile (\<lambda>x. x \<noteq> newline) (drop 4 (c # cs))))
      else c # remove_comments cs)"
  by pat_completeness auto
termination
proof (relation "measure length")
  show "wf (measure length)" by simp
next
  fix c :: char and cs :: string
  have "length (tl (dropWhile (\<lambda>x. x \<noteq> newline) (drop 4 (c # cs))))
          \<le> length (dropWhile (\<lambda>x. x \<noteq> newline) (drop 4 (c # cs)))"
    by simp
  also have "\<dots> \<le> length (drop 4 (c # cs))"
    by (rule length_dropWhile_le)
  also have "\<dots> < length (c # cs)"
    by simp
  finally show "(tl (dropWhile (\<lambda>x. x \<noteq> newline) (drop 4 (c # cs))), c # cs) \<in> measure length"
    by simp
next
  fix c :: char and cs :: string
  show "(cs, c # cs) \<in> measure length" by simp
qed

subsection \<open>parse_json_from_ts\<close>

text \<open>
  \<^verbatim>\<open>json.loads\<close> belongs to the standard library and is a parameter: it returns the
  parsed value or raises.
\<close>

definition parse_json_from_ts :: "(string \<Rightarrow> exn + json) \<Rightarrow> string \<Rightarrow> exn + json" where
  "parse_json_from_ts json_loads ts_file_contents =
     (let text_without_comments = remove_comments ts_file_contents;
          json_start = py_find text_without_comments [CHR ''{'', newline];
          json_end = py_rfind text_without_comments ''}'' + 1
      in json_loads (py_slice text_without_comments json_start json_end))"

text \<open>A probe for \<open>json_loads\<close> that hands back the very text it was asked to parse.\<close>

definition echo_loads :: "string \<Rightarrow> exn + json" where
  "echo_loads s = Inr (JStr s)"

subsection \<open>get_package_file_contents\<close>

text \<open>\<^verbatim>\<open>os.path.join\<close> for two components, on a POSIX system.\<close>

definition os_path_join :: "string \<Rightarrow> string \<Rightarrow> string" where
  "os_path_join a b =
     (if b \<noteq> [] \<and> hd b = CHR ''/'' then b
      else if a = [] \<or> last a = CHR ''/'' then a @ b
      else a @ ''/'' @ b)"

definition is_FileNotFoundError :: "exn \<Rightarrow> bool" where
  "is_FileNotFoundError e = (case e of FileNotFoundError m \<Rightarrow> True | _ \<Rightarrow> False)"

text \<open>
  The file system and the package loader are parameters. \<open>io_open_read path\<close> is the
  \<^verbatim>\<open>with io.open(path, 'r', encoding='utf-8') as file: return file.read()\<close> block: the
  text of the file, or the exception it raises. \<open>pkgutil_get_data\<close> is
  \<^verbatim>\<open>pkgutil.get_data\<close>: it returns \<^verbatim>\<open>None\<close> or the bytes of the resource, or it
  raises (a regular package that lacks the file makes its loader raise
  \<^verbatim>\<open>FileNotFoundError\<close> with the absolute path; a dotted package name whose parent is
  missing raises \<^verbatim>\<open>ModuleNotFoundError\<close>). The call stands inside the \<^verbatim>\<open>except\<close>
  block, so what it raises propagates. \<open>decode_utf8\<close> is \<^verbatim>\<open>bytes.decode('utf-8')\<close>,
  which raises \<^verbatim>\<open>UnicodeDecodeError\<close> on bytes that are not UTF-8. Only
  \<^verbatim>\<open>FileNotFoundError\<close> from the direct read is caught; it is the caught exception
  itself that is raised again when the package read returns \<^verbatim>\<open>None\<close>.
\<close>

definition get_package_file_contents ::
  "(string \<Rightarrow> exn + string) \<Rightarrow> (string \<Rightarrow> string \<Rightarrow> exn + string option) \<Rightarrow>
   (string \<Rightarrow> string option) \<Rightarrow> string \<Rightarrow> string \<Rightarrow> exn + string" where
  "get_package_file_contents io_open_read pkgutil_get_data decode_utf8 package filepath =
     (case io_open_read (os_path_join package filepath) of
        Inr contents \<Rightarrow> Inr contents
      | Inl e \<Rightarrow>
          if is_FileNotFoundError e then
            (case pkgutil_get_data package filepath of
               Inl raised \<Rightarrow> Inl raised
             | Inr None \<Rightarrow> Inl e
             | Inr (Some file_data) \<Rightarrow>
                 (case decode_utf8 file_data of
                    None \<Rightarrow> Inl UnicodeDecodeError
                  | Some s \<Rightarrow> Inr s))
          else Inl e)"

subsection \<open>Constants\<close>











section \<open>core/controllers/learner_group.py\<close>

subsection \<open>Domain objects and request data\<close>

text \<open>
  A user id that comes out of a lookup is a Python \<^verbatim>\<open>Optional[str]\<close>; the id lists of a
  group hold such values. A title or description is \<^verbatim>\<open>None\<close> when the payload leaves
  it out (the schema's default).
\<close>

record learner_group =
  group_id :: string
  title :: "string option"
  description :: "string option"
  facilitator_user_ids :: "string option list"
  student_user_ids :: "string option list"
  invited_student_user_ids :: "string option list"
  subtopic_page_ids :: "string list"
  story_ids :: "string list"

record user_settings =
  settings_user_id :: string
  settings_username :: string
  profile_picture_data_url :: string

text \<open>
  The handler object after the access decorator has let the request in: the signed-in
  caller's id and username, both strings.
\<close>

record handler =
  user_id :: string
  username :: string

text \<open>\<^verbatim>\<open>LEARNER_GROUP_SCHEMA\<close>: the normalized payload of a POST or PUT.\<close>

record payload =
  group_title :: "string option"
  group_description :: "string option"
  student_usernames :: "string list"
  invited_student_usernames :: "string list"
  payload_subtopic_page_ids :: "string list"
  payload_story_ids :: "string list"

subsection \<open>The service layer\<close>

text \<open>
  The domain services are not part of these sources, so they are parameters, over a
  datastore of any type \<open>'s\<close>. A query reads the store and returns or raises; the three
  mutators (create, update, remove) also return the store they leave behind. The two
  progress services return a dictionary keyed by user id.
\<close>

record 's services =
  get_multi_user_ids_from_usernames :: "string list \<Rightarrow> 's \<Rightarrow> exn + string option list"
  get_usernames :: "string option list \<Rightarrow> 's \<Rightarrow> exn + string option list"
  get_user_settings_from_username :: "string \<Rightarrow> 's \<Rightarrow> exn + user_settings option"
  get_new_learner_group_id :: "'s \<Rightarrow> exn + string"
  get_learner_group_by_id :: "string \<Rightarrow> 's \<Rightarrow> exn + learner_group option"
  can_multi_students_share_progress ::
    "string option list \<Rightarrow> string \<Rightarrow> 's \<Rightarrow> exn + bool list"
  is_user_facilitator :: "string \<Rightarrow> string \<Rightarrow> 's \<Rightarrow> exn + bool"
  can_user_be_invited :: "string \<Rightarrow> string \<Rightarrow> string \<Rightarrow> 's \<Rightarrow> exn + bool \<times> string"
  get_multi_users_progress_in_stories ::
    "string option list \<Rightarrow> string list \<Rightarrow> 's \<Rightarrow> exn + (string option \<rightharpoonup> json)"
  get_multi_users_subtopic_pages_progress ::
    "string option list \<Rightarrow> string list \<Rightarrow> 's \<Rightarrow> exn + (string option \<rightharpoonup> json)"
  create_learner_group ::
    "string \<Rightarrow> string option \<Rightarrow> string option \<Rightarrow> string option list \<Rightarrow> string option list \<Rightarrow>
     string list \<Rightarrow> string list \<Rightarrow> 's \<Rightarrow> (exn + learner_group) \<times> 's"
  update_learner_group ::
    "string \<Rightarrow> string option \<Rightarrow> string option \<Rightarrow> string option list \<Rightarrow> string option list \<Rightarrow>
     string option list \<Rightarrow> string list \<Rightarrow> string list \<Rightarrow> 's \<Rightarrow> (exn + learner_group) \<times> 's"
  remove_learner_group :: "string \<Rightarrow> 's \<Rightarrow> (exn + unit) \<times> 's"

text \<open>Every call a handler makes into the service layer, with its arguments.\<close>

datatype service_call =
    Get_multi_user_ids_from_usernames "string list"
  | Get_usernames "string option list"
  | Get_user_settings_from_username string
  | Get_new_learner_group_id
  | Get_learner_group_by_id string
  | Can_multi_students_share_progress "string option list" string
  | Is_user_facilitator string string
  | Can_user_be_invited string string string
  | Get_multi_users_progress_in_stories "string option list" "string list"
  | Get_multi_users_subtopic_pages_progress "string option list" "string list"
  | Create_learner_group string "string option" "string option" "string option list"
      "string option list" "string list" "string list"
  | Update_learner_group string "string option" "string option" "string option list"
      "string option list" "string option list" "string list" "string list"
  | Remove_learner_group string

definition is_mutation :: "service_call \<Rightarrow> bool" where
  "is_mutation c =
     (case c of
        Create_learner_group g t d f i sp st \<Rightarrow> True
      | Update_learner_group g t d f s i sp st \<Rightarrow> True
      | Remove_learner_group g \<Rightarrow> True
      | _ \<Rightarrow> False)"

definition is_progress_call :: "service_call \<Rightarrow> bool" where
  "is_progress_call c =
     (case c of
        Can_multi_students_share_progress ids g \<Rightarrow> True
      | Get_multi_users_progress_in_stories ids st \<Rightarrow> True
      | Get_multi_users_subtopic_pages_progress ids sp \<Rightarrow> True
      | _ \<Rightarrow> False)"

subsection \<open>Running a handler\<close>

text \<open>
  A handler runs on the datastore and a log of the service calls made so far. It ends
  with the dictionary given to \<^verbatim>\<open>render_json\<close> or with the exception raised, and with
  the store and log it leaves. An exception ends the handler at once.
\<close>

type_synonym ('s, 'a) action = "'s \<times> service_call list \<Rightarrow> (exn + 'a) \<times> 's \<times> service_call list"

definition and_then :: "('s, 'a) action \<Rightarrow> ('a \<Rightarrow> ('s, 'b) action) \<Rightarrow> ('s, 'b) action" where
  "and_then m k = (\<lambda>st. case m st of (Inl e, st') \<Rightarrow> (Inl e, st') | (Inr x, st') \<Rightarrow> k x st')"

definition raise_exn :: "exn \<Rightarrow> ('s, 'a) action" where
  "raise_exn e = (\<lambda>st. (Inl e, st))"

definition render_json :: "json \<Rightarrow> ('s, json) action" where
  "render_json v = (\<lambda>st. (Inr v, st))"

definition computed :: "exn + 'a \<Rightarrow> ('s, 'a) action" where
  "computed r = (\<lambda>st. (r, st))"

definition query :: "service_call \<Rightarrow> ('s \<Rightarrow> exn + 'a) \<Rightarrow> ('s, 'a) action" where
  "query c f = (\<lambda>(s, log). (f s, s, log @ [c]))"

definition command :: "service_call \<Rightarrow> ('s \<Rightarrow> (exn + 'a) \<times> 's) \<Rightarrow> ('s, 'a) action" where
  "command c f = (\<lambda>(s, log). case f s of (r, s') \<Rightarrow> (r, s', log @ [c]))"

text \<open>The service calls, each entered in the log as it is made.\<close>

definition call_get_multi_user_ids_from_usernames ::
  "'s services \<Rightarrow> string list \<Rightarrow> ('s, string option list) action" where
  "call_get_multi_user_ids_from_usernames sv names =
     query (Get_multi_user_ids_from_usernames names) (get_multi_user_ids_from_usernames sv names)"

definition call_get_usernames ::
  "'s services \<Rightarrow> string option list \<Rightarrow> ('s, string option list) action" where
  "call_get_usernames sv ids = query (Get_usernames ids) (get_usernames sv ids)"

definition call_get_user_settings_from_username ::
  "'s services \<Rightarrow> string \<Rightarrow> ('s, user_settings option) action" where
  "call_get_user_settings_from_username sv name =
     query (Get_user_settings_from_username name) (get_user_settings_from_username sv name)"

definition call_get_new_learner_group_id :: "'s services \<Rightarrow> ('s, string) action" where
  "call_get_new_learner_group_id sv = query Get_new_learner_group_id (get_new_learner_group_id sv)"

definition call_get_learner_group_by_id ::
  "'s services \<Rightarrow> string \<Rightarrow> ('s, learner_group option) action" where
  "call_get_learner_group_by_id sv gid =
     query (Get_learner_group_by_id gid) (get_learner_group_by_id sv gid)"

definition call_can_multi_students_share_progress ::
  "'s services \<Rightarrow> string option list \<Rightarrow> string \<Rightarrow> ('s, bool list) action" where
  "call_can_multi_students_share_progress sv ids gid =
     query (Can_multi_students_share_progress ids gid)
       (can_multi_students_share_progress sv ids gid)"

definition call_is_user_facilitator :: "'s services \<Rightarrow> string \<Rightarrow> string \<Rightarrow> ('s, bool) action" where
  "call_is_user_facilitator sv uid gid =
     query (Is_user_facilitator uid gid) (is_user_facilitator sv uid gid)"

definition call_can_user_be_invited ::
  "'s services \<Rightarrow> string \<Rightarrow> string \<Rightarrow> string \<Rightarrow> ('s, bool \<times> string) action" where
  "call_can_user_be_invited sv uid name gid =
     query (Can_user_be_invited uid name gid) (can_user_be_invited sv uid name gid)"

definition call_get_multi_users_progress_in_stories ::
  "'s services \<Rightarrow> string option list \<Rightarrow> string list \<Rightarrow> ('s, string option \<rightharpoonup> json) action" where
  "call_get_multi_users_progress_in_stories sv ids sids =
     query (Get_multi_users_progress_in_stories ids sids)
       (get_multi_users_progress_in_stories sv ids sids)"

definition call_get_multi_users_subtopic_pages_progress ::
  "'s services \<Rightarrow> string option list \<Rightarrow> string list \<Rightarrow> ('s, string option \<rightharpoonup> json) action" where
  "call_get_multi_users_subtopic_pages_progress sv ids pids =
     query (Get_multi_users_subtopic_pages_progress ids pids)
       (get_multi_users_subtopic_pages_progress sv ids pids)"

definition call_create_learner_group ::
  "'s services \<Rightarrow> string \<Rightarrow> string option \<Rightarrow> string option \<Rightarrow> string option list \<Rightarrow>
   string option list \<Rightarrow> string list \<Rightarrow> string list \<Rightarrow> ('s, learner_group) action" where
  "call_create_learner_group sv gid t d facs invited pids sids =
     command (Create_learner_group gid t d facs invited pids sids)
       (create_learner_group sv gid t d facs invited pids sids)"

definition call_update_learner_group ::
  "'s services \<Rightarrow> string \<Rightarrow> string option \<Rightarrow> string option \<Rightarrow> string option list \<Rightarrow>
   string option list \<Rightarrow> string option list \<Rightarrow> string list \<Rightarrow> string list \<Rightarrow>
   ('s, learner_group) action" where
  "call_update_learner_group sv gid t d facs students invited pids sids =
     command (Update_learner_group gid t d facs students invited pids sids)
       (update_learner_group sv gid t d facs students invited pids sids)"

definition call_remove_learner_group :: "'s services \<Rightarrow> string \<Rightarrow> ('s, unit) action" where
  "call_remove_learner_group sv gid =
     command (Remove_learner_group gid) (remove_learner_group sv gid)"

subsection \<open>Rendering\<close>

definition json_optional_str :: "string option \<Rightarrow> json" where
  "json_optional_str x = (case x of None \<Rightarrow> JNull | Some s \<Rightarrow> JStr s)"

definition json_field :: "string \<Rightarrow> json \<Rightarrow> json option" where
  "json_field k v = (case v of JObj kvs \<Rightarrow> map_of kvs k | _ \<Rightarrow> None)"

text \<open>
  The dictionary that POST, PUT and the facilitator's view all render for a group; the
  source writes it out in each of the three handlers. The three \<^verbatim>\<open>get_usernames\<close>
  calls are made in the order of the keys.
\<close>

definition learner_group_dict :: "'s services \<Rightarrow> learner_group \<Rightarrow> ('s, json) action" where
  "learner_group_dict sv learner_group =
     and_then (call_get_usernames sv (facilitator_user_ids learner_group)) (\<lambda>facilitator_usernames.
     and_then (call_get_usernames sv (student_user_ids learner_group)) (\<lambda>student_names.
     and_then (call_get_usernames sv (invited_student_user_ids learner_group)) (\<lambda>invited_names.
     render_json (JObj
       [(''id'', JStr (group_id learner_group)),
        (''title'', json_optional_str (title learner_group)),
        (''description'', json_optional_str (description learner_group)),
        (''facilitator_usernames'', JList (map json_optional_str facilitator_usernames)),
        (''student_usernames'', JList (map json_optional_str student_names)),
        (''invited_student_usernames'', JList (map json_optional_str invited_names)),
        (''subtopic_page_ids'', JList (map JStr (subtopic_page_ids learner_group))),
        (''story_ids'', JList (map JStr (story_ids learner_group)))]))))"

subsection \<open>CreateLearnerGroupHandler\<close>

text \<open>
  \<^verbatim>\<open>post\<close> reads five keys of the payload; \<^verbatim>\<open>student_usernames\<close> is not among them.
\<close>

definition CreateLearnerGroupHandler_post ::
  "'s services \<Rightarrow> handler \<Rightarrow> payload \<Rightarrow> ('s, json) action" where
  "CreateLearnerGroupHandler_post sv self normalized_payload =
     and_then (call_get_multi_user_ids_from_usernames sv
                 (invited_student_usernames normalized_payload)) (\<lambda>invited_student_ids.
     and_then (call_get_new_learner_group_id sv) (\<lambda>new_learner_grp_id.
     and_then (call_create_learner_group sv new_learner_grp_id
                 (group_title normalized_payload) (group_description normalized_payload)
                 [Some (user_id self)] invited_student_ids
                 (payload_subtopic_page_ids normalized_payload)
                 (payload_story_ids normalized_payload)) (\<lambda>learner_group.
     learner_group_dict sv learner_group)))"

subsection \<open>LearnerGroupHandler\<close>

definition LearnerGroupHandler_put ::
  "'s services \<Rightarrow> handler \<Rightarrow> payload \<Rightarrow> string \<Rightarrow> ('s, json) action" where
  "LearnerGroupHandler_put sv self normalized_payload learner_group_id =
     and_then (call_is_user_facilitator sv (user_id self) learner_group_id) (\<lambda>is_valid_request.
     if \<not> is_valid_request
     then raise_exn (UnauthorizedUserException
            ''You are not a facilitator of this learner group.'')
     else
     and_then (call_get_multi_user_ids_from_usernames sv
                 (student_usernames normalized_payload)) (\<lambda>student_ids.
     and_then (call_get_multi_user_ids_from_usernames sv
                 (invited_student_usernames normalized_payload)) (\<lambda>invited_student_ids.
     and_then (call_update_learner_group sv learner_group_id
                 (group_title normalized_payload) (group_description normalized_payload)
                 [Some (user_id self)] student_ids invited_student_ids
                 (payload_subtopic_page_ids normalized_payload)
                 (payload_story_ids normalized_payload)) (\<lambda>learner_group.
     learner_group_dict sv learner_group))))"

definition LearnerGroupHandler_delete ::
  "'s services \<Rightarrow> handler \<Rightarrow> string \<Rightarrow> ('s, json) action" where
  "LearnerGroupHandler_delete sv self learner_group_id =
     and_then (call_is_user_facilitator sv (user_id self) learner_group_id) (\<lambda>is_valid_request.
     if \<not> is_valid_request
     then raise_exn (UnauthorizedUserException
            (''You do not have the rights to delete this learner group ''
             @ ''as you are not its facilitator.''))
     else
     and_then (call_remove_learner_group sv learner_group_id) (\<lambda>u.
     render_json (JObj [(''success'', JBool True)])))"

subsection \<open>LearnerGroupStudentProgressHandler\<close>

text \<open>
  The first loop, \<^verbatim>\<open>for i, user_id in enumerate(student_user_ids)\<close>, collects the ids
  whose permission is set. \<^verbatim>\<open>progress_sharing_permissions[i]\<close> raises \<^verbatim>\<open>IndexError\<close>
  when the permission list is too short.
\<close>

fun students_with_progress_sharing_on ::
  "bool list \<Rightarrow> nat \<Rightarrow> string option list \<Rightarrow> string option list \<Rightarrow> exn + string option list" where
  "students_with_progress_sharing_on perms i [] acc = Inr acc"
| "students_with_progress_sharing_on perms i (uid # rest) acc =
     (if i < length perms
      then students_with_progress_sharing_on perms (Suc i) rest
             (if perms ! i then acc @ [uid] else acc)
      else Inl IndexError)"

definition student_progress_dict :: "string \<Rightarrow> bool \<Rightarrow> json \<Rightarrow> json \<Rightarrow> json" where
  "student_progress_dict name sharing stories subtopics =
     JObj [(''username'', JStr name),
           (''progress_sharing_is_turned_on'', JBool sharing),
           (''stories_progress'', stories),
           (''subtopic_pages_progress'', subtopics)]"

definition key_text :: "string option \<Rightarrow> string" where
  "key_text k = (case k of None \<Rightarrow> ''None'' | Some u \<Rightarrow> u)"

text \<open>
  The second loop builds one record per user id. \<^verbatim>\<open>student_usernames[i]\<close> and
  \<^verbatim>\<open>progress_sharing_permissions[i]\<close> raise \<^verbatim>\<open>IndexError\<close> past the end of their list;
  \<^verbatim>\<open>stories_progresses[user_id]\<close> and \<^verbatim>\<open>subtopic_pages_progresses[user_id]\<close> raise
  \<^verbatim>\<open>KeyError\<close> on an id the dictionary does not have.
\<close>

fun all_students_progress ::
  "string list \<Rightarrow> bool list \<Rightarrow> (string option \<rightharpoonup> json) \<Rightarrow> (string option \<rightharpoonup> json) \<Rightarrow>
   nat \<Rightarrow> string option list \<Rightarrow> json list \<Rightarrow> exn + json list" where
  "all_students_progress names perms stories subtopics i [] acc = Inr acc"
| "all_students_progress names perms stories subtopics i (uid # rest) acc =
     (if i < length names \<and> i < length perms then
        if \<not> perms ! i then
          all_students_progress names perms stories subtopics (Suc i) rest
            (acc @ [student_progress_dict (names ! i) (perms ! i) (JList []) (JList [])])
        else
          (case stories uid of
             None \<Rightarrow> Inl (KeyError (key_text uid))
           | Some stories_progress \<Rightarrow>
               (case subtopics uid of
                  None \<Rightarrow> Inl (KeyError (key_text uid))
                | Some subtopic_pages_progress \<Rightarrow>
                    all_students_progress names perms stories subtopics (Suc i) rest
                      (acc @ [student_progress_dict (names ! i) (perms ! i)
                                stories_progress subtopic_pages_progress])))
      else Inl IndexError)"

definition LearnerGroupStudentProgressHandler_get ::
  "'s services \<Rightarrow> handler \<Rightarrow> string list \<Rightarrow> string \<Rightarrow> ('s, json) action" where
  "LearnerGroupStudentProgressHandler_get sv self requested_usernames learner_group_id =
     and_then (call_get_multi_user_ids_from_usernames sv requested_usernames) (\<lambda>student_user_ids.
     and_then (call_get_learner_group_by_id sv learner_group_id) (\<lambda>found.
     case found of
       None \<Rightarrow> raise_exn (InvalidInputException ''No such learner group exists.'')
     | Some learner_group \<Rightarrow>
     and_then (call_can_multi_students_share_progress sv student_user_ids learner_group_id)
       (\<lambda>progress_sharing_permissions.
     and_then (computed (students_with_progress_sharing_on
                 progress_sharing_permissions 0 student_user_ids [])) (\<lambda>sharing_ids.
     and_then (call_get_multi_users_progress_in_stories sv sharing_ids
                 (story_ids learner_group)) (\<lambda>stories_progresses.
     and_then (call_get_multi_users_subtopic_pages_progress sv sharing_ids
                 (subtopic_page_ids learner_group)) (\<lambda>subtopic_pages_progresses.
     and_then (computed (all_students_progress requested_usernames
                 progress_sharing_permissions stories_progresses subtopic_pages_progresses
                 0 student_user_ids [])) (\<lambda>records.
     render_json (JObj [(''students_progress'', JList records)]))))))))"

subsection \<open>LearnerGroupSearchStudentHandler\<close>

text \<open>
  \<^verbatim>\<open>str.lower\<close> belongs to the standard library and follows the Unicode case tables, so
  it is a parameter, \<open>str_lower\<close>. Each response dictionary is written out as the source
  writes it.
\<close>

definition LearnerGroupSearchStudentHandler_get ::
  "(string \<Rightarrow> string) \<Rightarrow> 's services \<Rightarrow> handler \<Rightarrow> string \<Rightarrow> string \<Rightarrow> ('s, json) action" where
  "LearnerGroupSearchStudentHandler_get str_lower sv self searched learner_group_id =
     and_then (call_get_user_settings_from_username sv searched) (\<lambda>found.
     case found of
       None \<Rightarrow>
         render_json (JObj
           [(''username'', JStr searched),
            (''profile_picture_data_url'', JStr []),
            (''error'', JStr (''User with username '' @ searched @ '' does not exist.''))])
     | Some settings \<Rightarrow>
         if str_lower (username self) = str_lower searched then
           render_json (JObj
             [(''username'', JStr (settings_username settings)),
              (''profile_picture_data_url'', JStr []),
              (''error'', JStr ''You cannot invite yourself to the group'')])
         else
           and_then (call_can_user_be_invited sv (settings_user_id settings)
                       (settings_username settings) learner_group_id) (\<lambda>(valid_invitation, err).
           if \<not> valid_invitation then
             render_json (JObj
               [(''username'', JStr (settings_username settings)),
                (''profile_picture_data_url'', JStr []),
                (''error'', JStr err)])
           else
             render_json (JObj
               [(''username'', JStr (settings_username settings)),
                (''profile_picture_data_url'', JStr (profile_picture_data_url settings)),
                (''error'', JStr [])])))"

subsection \<open>A reference environment\<close>

text \<open>
  Modelled from the spec: the domain-service layer (\<^verbatim>\<open>user_services\<close>,
  \<^verbatim>\<open>learner_group_services\<close>, \<^verbatim>\<open>learner_group_fetchers\<close>, \<^verbatim>\<open>story_fetchers\<close>,
  \<^verbatim>\<open>subtopic_page_services\<close>) and the datastore are missing from the sources. This is one
  datastore and one set of services that do what the spec says of them: usernames
  resolve to ids and back, a created group holds the invited ids and no students yet,
  an update replaces title, description, membership lists and syllabus in full, only a
  facilitator of a group passes the facilitator check.
\<close>

record world =
  users :: "user_settings list"
  groups :: "learner_group list"
  sharing_on :: "(string \<times> string) list"
  stories_done :: "(string \<times> json) list"
  subtopics_done :: "(string \<times> json) list"
  next_group_id :: string

definition find_group :: "string \<Rightarrow> world \<Rightarrow> learner_group option" where
  "find_group gid w = find (\<lambda>g. group_id g = gid) (groups w)"

definition ref_get_multi_user_ids_from_usernames ::
  "string list \<Rightarrow> world \<Rightarrow> exn + string option list" where
  "ref_get_multi_user_ids_from_usernames names w =
     Inr (map (\<lambda>n. map_option settings_user_id
                      (find (\<lambda>u. settings_username u = n) (users w))) names)"

definition ref_get_usernames :: "string option list \<Rightarrow> world \<Rightarrow> exn + string option list" where
  "ref_get_usernames ids w =
     Inr (map (\<lambda>i. case i of
                      None \<Rightarrow> None
                    | Some x \<Rightarrow> map_option settings_username
                                 (find (\<lambda>u. settings_user_id u = x) (users w))) ids)"

definition ref_get_user_settings_from_username ::
  "string \<Rightarrow> world \<Rightarrow> exn + user_settings option" where
  "ref_get_user_settings_from_username n w = Inr (find (\<lambda>u. settings_username u = n) (users w))"

definition ref_get_new_learner_group_id :: "world \<Rightarrow> exn + string" where
  "ref_get_new_learner_group_id w = Inr (next_group_id w)"

definition ref_get_learner_group_by_id :: "string \<Rightarrow> world \<Rightarrow> exn + learner_group option" where
  "ref_get_learner_group_by_id gid w = Inr (find_group gid w)"

definition ref_can_multi_students_share_progress ::
  "string option list \<Rightarrow> string \<Rightarrow> world \<Rightarrow> exn + bool list" where
  "ref_can_multi_students_share_progress ids gid w =
     Inr (map (\<lambda>i. case i of None \<Rightarrow> False | Some u \<Rightarrow> (u, gid) \<in> set (sharing_on w)) ids)"

definition ref_is_user_facilitator :: "string \<Rightarrow> string \<Rightarrow> world \<Rightarrow> exn + bool" where
  "ref_is_user_facilitator uid gid w =
     (case find_group gid w of
        None \<Rightarrow> Inl (ServiceError ''no such learner group'')
      | Some g \<Rightarrow> Inr (Some uid \<in> set (facilitator_user_ids g)))"

definition ref_can_user_be_invited ::
  "string \<Rightarrow> string \<Rightarrow> string \<Rightarrow> world \<Rightarrow> exn + bool \<times> string" where
  "ref_can_user_be_invited uid name gid w =
     Inr (case find_group gid w of
            None \<Rightarrow> (True, [])
          | Some g \<Rightarrow>
              if Some uid \<in> set (student_user_ids g) \<or> Some uid \<in> set (invited_student_user_ids g)
              then (False, ''User '' @ name @ '' is already part of the group'')
              else (True, []))"

definition progress_of :: "(string \<times> json) list \<Rightarrow> string option \<Rightarrow> json" where
  "progress_of stored k =
     (case k of
        None \<Rightarrow> JList []
      | Some u \<Rightarrow> (case map_of stored u of None \<Rightarrow> JList [] | Some p \<Rightarrow> p))"

definition ref_get_multi_users_progress_in_stories ::
  "string option list \<Rightarrow> string list \<Rightarrow> world \<Rightarrow> exn + (string option \<rightharpoonup> json)" where
  "ref_get_multi_users_progress_in_stories ids sids w =
     Inr (\<lambda>k. if k \<in> set ids then Some (progress_of (stories_done w) k) else None)"

definition ref_get_multi_users_subtopic_pages_progress ::
  "string option list \<Rightarrow> string list \<Rightarrow> world \<Rightarrow> exn + (string option \<rightharpoonup> json)" where
  "ref_get_multi_users_subtopic_pages_progress ids pids w =
     Inr (\<lambda>k. if k \<in> set ids then Some (progress_of (subtopics_done w) k) else None)"

definition ref_create_learner_group ::
  "string \<Rightarrow> string option \<Rightarrow> string option \<Rightarrow> string option list \<Rightarrow> string option list \<Rightarrow>
   string list \<Rightarrow> string list \<Rightarrow> world \<Rightarrow> (exn + learner_group) \<times> world" where
  "ref_create_learner_group gid t d facs invited pids sids w =
     (let g = \<lparr>group_id = gid, title = t, description = d, facilitator_user_ids = facs,
               student_user_ids = [], invited_student_user_ids = invited,
               subtopic_page_ids = pids, story_ids = sids\<rparr>
      in (Inr g, w\<lparr>groups := groups w @ [g]\<rparr>))"

definition ref_update_learner_group ::
  "string \<Rightarrow> string option \<Rightarrow> string option \<Rightarrow> string option list \<Rightarrow> string option list \<Rightarrow>
   string option list \<Rightarrow> string list \<Rightarrow> string list \<Rightarrow> world \<Rightarrow> (exn + learner_group) \<times> world" where
  "ref_update_learner_group gid t d facs students invited pids sids w =
     (case find_group gid w of
        None \<Rightarrow> (Inl (ServiceError ''no such learner group''), w)
      | Some old \<Rightarrow>
          (let g = \<lparr>group_id = gid, title = t, description = d, facilitator_user_ids = facs,
                    student_user_ids = students, invited_student_user_ids = invited,
                    subtopic_page_ids = pids, story_ids = sids\<rparr>
           in (Inr g, w\<lparr>groups := map (\<lambda>x. if group_id x = gid then g else x) (groups w)\<rparr>)))"

definition ref_remove_learner_group :: "string \<Rightarrow> world \<Rightarrow> (exn + unit) \<times> world" where
  "ref_remove_learner_group gid w =
     (Inr (), w\<lparr>groups := filter (\<lambda>g. group_id g \<noteq> gid) (groups w)\<rparr>)"

definition reference_services :: "world services" where
  "reference_services =
     \<lparr>get_multi_user_ids_from_usernames = ref_get_multi_user_ids_from_usernames,
      get_usernames = ref_get_usernames,
      get_user_settings_from_username = ref_get_user_settings_from_username,
      get_new_learner_group_id = ref_get_new_learner_group_id,
      get_learner_group_by_id = ref_get_learner_group_by_id,
      can_multi_students_share_progress = ref_can_multi_students_share_progress,
      is_user_facilitator = ref_is_user_facilitator,
      can_user_be_invited = ref_can_user_be_invited,
      get_multi_users_progress_in_stories = ref_get_multi_users_progress_in_stories,
      get_multi_users_subtopic_pages_progress = ref_get_multi_users_subtopic_pages_progress,
      create_learner_group = ref_create_learner_group,
      update_learner_group = ref_update_learner_group,
      remove_learner_group = ref_remove_learner_group\<rparr>"

text \<open>
  A small datastore: three users, and one group that Alice and Bob facilitate, with
  Bob and Carol as its students. Both have stored story progress; only Bob shares his.
\<close>

definition alice :: user_settings where
  "alice = \<lparr>settings_user_id = ''uid_alice'', settings_username = ''alice'',
            profile_picture_data_url = ''data:alice''\<rparr>"

definition bob :: user_settings where
  "bob = \<lparr>settings_user_id = ''uid_bob'', settings_username = ''bob'',
          profile_picture_data_url = ''data:bob''\<rparr>"

definition carol :: user_settings where
  "carol = \<lparr>settings_user_id = ''uid_carol'', settings_username = ''carol'',
            profile_picture_data_url = ''data:carol''\<rparr>"

definition dave :: user_settings where
  "dave = \<lparr>settings_user_id = ''uid_dave'', settings_username = ''dave'',
           profile_picture_data_url = ''data:dave''\<rparr>"

definition group1 :: learner_group where
  "group1 = \<lparr>group_id = ''group1'', title = Some ''Algebra'', description = Some ''Term 1'',
             facilitator_user_ids = [Some ''uid_alice'', Some ''uid_bob''],
             student_user_ids = [Some ''uid_bob'', Some ''uid_carol''],
             invited_student_user_ids = [],
             subtopic_page_ids = [''topic1:1''], story_ids = [''story1'']\<rparr>"

definition world0 :: world where
  "world0 = \<lparr>users = [alice, bob, carol, dave], groups = [group1],
             sharing_on = [(''uid_bob'', ''group1'')],
             stories_done = [(''uid_carol'', JList [JStr ''story1'']),
                             (''uid_bob'', JList [JStr ''story1''])],
             subtopics_done = [(''uid_bob'', JList [JStr ''topic1:1''])],
             next_group_id = ''group2''\<rparr>"

definition as_alice :: handler where
  "as_alice = \<lparr>user_id = ''uid_alice'', username = ''alice''\<rparr>"

definition as_bob :: handler where
  "as_bob = \<lparr>user_id = ''uid_bob'', username = ''bob''\<rparr>"

definition as_carol :: handler where
  "as_carol = \<lparr>user_id = ''uid_carol'', username = ''carol''\<rparr>"

definition payload0 :: payload where
  "payload0 = \<lparr>group_title = Some ''Geometry'', group_description = Some ''Term 2'',
               student_usernames = [''carol''], invited_student_usernames = [''bob''],
               payload_subtopic_page_ids = [''topic2:1''], payload_story_ids = [''story2'']\<rparr>"

text \<open>
  The same services, with an eligibility check that refuses every invitation and gives
  no reason for it.
\<close>

definition refusing_without_reason :: "world services" where
  "refusing_without_reason =
     reference_services\<lparr>can_user_be_invited := (\<lambda>uid name gid w. Inr (False, []))\<rparr>"

text \<open>\<^verbatim>\<open>str.lower\<close> as it acts on ASCII text, for the example requests.\<close>

definition lower_char :: "char \<Rightarrow> char" where
  "lower_char c =
     (let n = (of_char c :: nat) in if 65 \<le> n \<and> n \<le> 90 then char_of (n + 32) else c)"

definition ascii_lower :: "string \<Rightarrow> string" where
  "ascii_lower s = map lower_char s"

subsection \<open>Example inputs for the loader\<close>

text \<open>
  A file system on which no file exists; a package for which \<^verbatim>\<open>pkgutil.get_data\<close>
  returns \<^verbatim>\<open>None\<close>; a package that holds a two-byte asset; a regular package installed
  under \<^verbatim>\<open>/srv\<close> that lacks the file, whose loader raises \<^verbatim>\<open>FileNotFoundError\<close> with
  the absolute path; and the UTF-8 decoder on ASCII bytes.
\<close>

definition missing_file :: "string \<Rightarrow> exn + string" where
  "missing_file path = Inl (FileNotFoundError path)"

definition no_package_data :: "string \<Rightarrow> string \<Rightarrow> exn + string option" where
  "no_package_data package filepath = Inr None"

definition packaged_data :: "string \<Rightarrow> string \<Rightarrow> exn + string option" where
  "packaged_data package filepath = Inr (Some ''{}'')"

definition regular_package_without_file :: "string \<Rightarrow> string \<Rightarrow> exn + string option" where
  "regular_package_without_file package filepath =
     Inl (FileNotFoundError (''/srv/'' @ package @ ''/'' @ filepath))"

definition ascii_decode :: "string \<Rightarrow> string option" where
  "ascii_decode b = (if list_all (\<lambda>c. (of_char c :: nat) < 128) b then Some b else None)"

section \<open>Properties of core/constants.py\<close>

subsection \<open>Searching and slicing\<close>

lemma find_from_first:
  assumes "take (length sub) (drop i s) = sub"
    and "\<forall>k<i. take (length sub) (drop k s) \<noteq> sub"
  shows "find_from sub s n = int (n + i)"
  using assms
proof (induction s arbitrary: i n)
  case Nil
  then show ?case by (cases i) auto
next
  case (Cons c cs)
  show ?case
  proof (cases i)
    case 0
    with Cons.prems show ?thesis by simp
  next
    case (Suc i')
    from Cons.prems(2) Suc have head: "take (length sub) (c # cs) \<noteq> sub"
      by (metis drop0 zero_less_Suc)
    from Cons.prems(1) Suc have here: "take (length sub) (drop i' cs) = sub"
      by simp
    have before: "\<forall>k<i'. take (length sub) (drop k cs) \<noteq> sub"
    proof (intro allI impI)
      fix k assume "k < i'"
      then have "Suc k < i" using Suc by simp
      with Cons.prems(2) have "take (length sub) (drop (Suc k) (c # cs)) \<noteq> sub"
        by blast
      then show "take (length sub) (drop k cs) \<noteq> sub" by simp
    qed
    from Cons.IH [OF here before, of "Suc n"] head Suc show ?thesis
      by simp
  qed
qed

lemma occurrence_free_tail:
  assumes "\<forall>k\<le>length (c # cs). take m (drop k (c # cs)) \<noteq> sub"
  shows "\<forall>k\<le>length cs. take m (drop k cs) \<noteq> sub"
proof (intro allI impI)
  fix k assume "k \<le> length cs"
  then have "Suc k \<le> length (c # cs)" by simp
  with assms have "take m (drop (Suc k) (c # cs)) \<noteq> sub" by blast
  then show "take m (drop k cs) \<noteq> sub" by simp
qed

lemma rfind_from_absent:
  assumes "\<forall>k\<le>length s. take (length sub) (drop k s) \<noteq> sub"
  shows "rfind_from sub s n = - 1"
  using assms
proof (induction s arbitrary: n)
  case Nil
  then show ?case by auto
next
  case (Cons c cs)
  from Cons.prems have head: "take (length sub) (c # cs) \<noteq> sub"
    by (metis drop0 le0)
  from Cons.IH [OF occurrence_free_tail [OF Cons.prems], of "Suc n"] head
  show ?case by simp
qed

lemma rfind_from_last:
  assumes "take (length sub) (drop j s) = sub" and "j \<le> length s"
    and "\<forall>k. j < k \<and> k \<le> length s \<longrightarrow> take (length sub) (drop k s) \<noteq> sub"
  shows "rfind_from sub s n = int (n + j)"
  using assms
proof (induction s arbitrary: j n)
  case Nil
  then show ?case by auto
next
  case (Cons c cs)
  show ?case
  proof (cases j)
    case 0
    have "\<forall>k\<le>length cs. take (length sub) (drop k cs) \<noteq> sub"
    proof (intro allI impI)
      fix k assume "k \<le> length cs"
      then have "j < Suc k \<and> Suc k \<le> length (c # cs)" using 0 by simp
      with Cons.prems(3) have "take (length sub) (drop (Suc k) (c # cs)) \<noteq> sub" by blast
      then show "take (length sub) (drop k cs) \<noteq> sub" by simp
    qed
    then have "rfind_from sub cs (Suc n) = - 1" by (rule rfind_from_absent)
    with Cons.prems(1) 0 show ?thesis by simp
  next
    case (Suc j')
    from Cons.prems(1) Suc have here: "take (length sub) (drop j' cs) = sub" by simp
    from Cons.prems(2) Suc have le: "j' \<le> length cs" by simp
    have after: "\<forall>k. j' < k \<and> k \<le> length cs \<longrightarrow> take (length sub) (drop k cs) \<noteq> sub"
    proof (intro allI impI)
      fix k assume "j' < k \<and> k \<le> length cs"
      then have "j < Suc k \<and> Suc k \<le> length (c # cs)" using Suc by simp
      with Cons.prems(3) have "take (length sub) (drop (Suc k) (c # cs)) \<noteq> sub" by blast
      then show "take (length sub) (drop k cs) \<noteq> sub" by simp
    qed
    from Cons.IH [OF here le after, of "Suc n"] Suc show ?thesis
      by (simp add: Let_def)
  qed
qed

lemma take_one_drop: "take (Suc 0) (drop k s) = [x] \<longleftrightarrow> k < length s \<and> s ! k = x"
  by (cases "k < length s") (auto simp: take_Suc_conv_app_nth hd_drop_conv_nth take_Suc)

lemma py_find_first:
  assumes "take (length sub) (drop i s) = sub"
    and "\<forall>k<i. take (length sub) (drop k s) \<noteq> sub"
  shows "py_find s sub = int i"
  using find_from_first [OF assms, of 0] by (simp add: py_find_def)

lemma py_rfind_last_char:
  assumes "j < length s" and "s ! j = x"
    and "\<forall>k. j < k \<and> k < length s \<longrightarrow> s ! k \<noteq> x"
  shows "py_rfind s [x] = int j"
proof -
  have here: "take (length [x]) (drop j s) = [x]"
    using assms(1,2) by (simp add: take_one_drop)
  have after: "\<forall>k. j < k \<and> k \<le> length s \<longrightarrow> take (length [x]) (drop k s) \<noteq> [x]"
    using assms(3) by (auto simp: take_one_drop)
  from rfind_from_last [OF here _ after, of 0] assms(1) show ?thesis
    by (simp add: py_rfind_def)
qed

lemma py_slice_inside:
  assumes "i \<le> length s" and "j < length s"
  shows "py_slice s (int i) (int j + 1) = take (Suc j - i) (drop i s)"
  using assms by (simp add: py_slice_def slice_bound_def Let_def min_def nat_add_distrib)

subsection \<open>What remove_comments removes\<close>

text \<open>
  A line that ends in a comment: code without two slashes in a row, then two spaces,
  two slashes and a comment up to the newline. The comment goes, together with its two
  spaces and its newline; the code stays and the scan goes on with the next line.
\<close>

lemma dropWhile_to_newline:
  assumes "newline \<notin> set comment"
  shows "dropWhile (\<lambda>x. x \<noteq> newline) (comment @ newline # rest) = newline # rest"
  using assms by (induction comment) auto

lemma remove_comments_at_comment:
  assumes "newline \<notin> set comment"
  shows "remove_comments (''  //'' @ comment @ newline # rest) = remove_comments rest"
  using assms by (simp add: dropWhile_to_newline)

lemma remove_comments_no_match:
  assumes "take 4 (c # x) \<noteq> ''  //''"
  shows "remove_comments (c # x) = c # remove_comments x"
proof -
  from assms
  have skip: "(take 4 (c # x) = ''  //'' \<and> newline \<in> set (drop 4 (c # x))) = False"
    by blast
  show ?thesis
    by (subst remove_comments.simps(2)) (simp only: skip if_False)
qed

lemma remove_comments_keeps_code:
  assumes "newline \<notin> set comment"
    and "\<forall>k. Suc k < length code \<longrightarrow> \<not> (code ! k = CHR ''/'' \<and> code ! Suc k = CHR ''/'')"
  shows "remove_comments (code @ ''  //'' @ comment @ newline # rest)
           = code @ remove_comments rest"
  using assms(2)
proof (induction code)
  case Nil
  from remove_comments_at_comment [OF assms(1)] show ?case by simp
next
  case (Cons c cs)
  have tail: "\<forall>k. Suc k < length cs \<longrightarrow> \<not> (cs ! k = CHR ''/'' \<and> cs ! Suc k = CHR ''/'')"
  proof (intro allI impI)
    fix k assume "Suc k < length cs"
    then have "Suc (Suc k) < length (c # cs)" by simp
    with Cons.prems have "\<not> ((c # cs) ! Suc k = CHR ''/'' \<and> (c # cs) ! Suc (Suc k) = CHR ''/'')"
      by blast
    then show "\<not> (cs ! k = CHR ''/'' \<and> cs ! Suc k = CHR ''/'')" by simp
  qed
  have no_match: "take 4 ((c # cs) @ ''  //'' @ comment @ newline # rest) \<noteq> ''  //''"
  proof (cases cs)
    case Nil
    then show ?thesis by simp
  next
    case (Cons a as)
    note cs = this
    show ?thesis
    proof (cases as)
      case Nil
      with cs show ?thesis by simp
    next
      case (Cons b bs)
      note as = this
      show ?thesis
      proof (cases bs)
        case Nil
        with cs as show ?thesis by simp
      next
        case (Cons d ds)
        from Cons.prems [rule_format, of 2] cs as Cons
        have "\<not> (b = CHR ''/'' \<and> d = CHR ''/'')" by simp
        with cs as Cons show ?thesis by auto
      qed
    qed
  qed
  let ?x = "cs @ ''  //'' @ comment @ newline # rest"
  from no_match have "take 4 (c # ?x) \<noteq> ''  //''" by simp
  then have "remove_comments (c # ?x) = c # remove_comments ?x"
    by (rule remove_comments_no_match)
  with Cons.IH [OF tail] show ?case by simp
qed

subsection \<open>C6: what parse_json_from_ts hands to the JSON parser\<close>

text \<open>
  C6, as amended. Let \<open>t\<close> be the text with its comments removed. Whenever \<open>t\<close> contains
  an opening brace immediately followed by a newline, the first at index \<open>i\<close>, and a
  closing brace, the last at index \<open>j\<close>, the JSON parser is given exactly the characters
  of \<open>t\<close> from index \<open>i\<close> up to and including index \<open>j\<close> (none, when \<open>j\<close> is before \<open>i\<close>),
  and the result of \<open>parse_json_from_ts\<close> is the parser's result on them.
\<close>

theorem parse_json_from_ts_substring:
  assumes "t = remove_comments ts"
    and "take 2 (drop i t) = [CHR ''{'', newline]"
    and "\<forall>k<i. take 2 (drop k t) \<noteq> [CHR ''{'', newline]"
    and "j < length t" and "t ! j = CHR ''}''"
    and "\<forall>k. j < k \<and> k < length t \<longrightarrow> t ! k \<noteq> CHR ''}''"
  shows "parse_json_from_ts json_loads ts = json_loads (take (Suc j - i) (drop i t))"
proof -
  have start: "py_find t [CHR ''{'', newline] = int i"
    using py_find_first [of "[CHR ''{'', newline]" i t] assms(2,3)
    by (simp add: numeral_2_eq_2)
  have stop: "py_rfind t ''}'' = int j"
    using py_rfind_last_char [OF assms(4,5,6)] .
  have "i \<le> length t"
  proof (rule ccontr)
    assume "\<not> i \<le> length t"
    then have "drop i t = []" by simp
    with assms(2) show False by simp
  qed
  then have "py_slice t (int i) (int j + 1) = take (Suc j - i) (drop i t)"
    using assms(4) by (rule py_slice_inside)
  with start stop assms(1) show ?thesis
    by (simp add: parse_json_from_ts_def Let_def)
qed

text \<open>
  An asset whose object opens after an assignment and carries one comment line: the
  comment goes, and the parser sees the three characters from the brace to the brace.
\<close>

theorem parse_json_from_ts_substring_witness:
  "parse_json_from_ts echo_loads (''{'' @ [newline] @ ''  // a comment'' @ [newline] @ ''};'')
     = Inr (JStr (''{'' @ [newline] @ ''}''))"
proof -
  let ?ts = "''{'' @ [newline] @ ''  // a comment'' @ [newline] @ ''};''"
  let ?t = "''{'' @ [newline] @ ''};''"
  have t: "?t = remove_comments ?ts" by (simp add: newline_def)
  have a: "take 2 (drop 0 ?t) = [CHR ''{'', newline]" by simp
  have b: "\<forall>k<0::nat. take 2 (drop k ?t) \<noteq> [CHR ''{'', newline]" by simp
  have c: "2 < length ?t" by simp
  have d: "?t ! 2 = CHR ''}''" by simp
  have e: "\<forall>k. 2 < k \<and> k < length ?t \<longrightarrow> ?t ! k \<noteq> CHR ''}''"
  proof (intro allI impI)
    fix k assume "2 < k \<and> k < length ?t"
    then have "k = 3" by simp
    then show "?t ! k \<noteq> CHR ''}''" by simp
  qed
  from parse_json_from_ts_substring [of ?t ?ts 0 2 echo_loads, OF t a b c d e]
  show ?thesis by (simp add: echo_loads_def)
qed

text \<open>
  C6 as stated fails on a text that has no brace followed by a newline: \<^verbatim>\<open>find\<close>
  answers \<open>-1\<close>, the slice starts at the last character, and the parser is given the
  closing brace alone, a text that does not start at any opening brace.
\<close>

theorem parse_json_from_ts_counterexample:
  "parse_json_from_ts echo_loads ''{}'' = Inr (JStr ''}'')"
  by (simp add: parse_json_from_ts_def echo_loads_def py_find_def py_rfind_def py_slice_def
      slice_bound_def newline_def)

subsection \<open>C7: when get_package_file_contents reports a missing file\<close>

text \<open>
  C7, as amended. \<open>get_package_file_contents\<close> raises a \<^verbatim>\<open>FileNotFoundError\<close> exactly
  when the direct read raises one and the packaged-resource read either yields no data,
  in which case the direct read's own exception is raised again, or itself raises a
  \<^verbatim>\<open>FileNotFoundError\<close>, which propagates. When the direct read raises
  \<^verbatim>\<open>FileNotFoundError\<close> and the package yields data, the result is that data decoded as
  UTF-8 (the decoder's \<^verbatim>\<open>UnicodeDecodeError\<close> when the bytes are not UTF-8), never a
  missing-file error. Whatever else the packaged-resource read raises propagates as it is.
\<close>

theorem get_package_file_contents_not_found:
  "(\<forall>m. get_package_file_contents rd pk dec package filepath = Inl (FileNotFoundError m)
        \<longleftrightarrow> (\<exists>m0. rd (os_path_join package filepath) = Inl (FileNotFoundError m0)
                \<and> (pk package filepath = Inr None \<and> m = m0
                    \<or> pk package filepath = Inl (FileNotFoundError m))))
   \<and> (\<forall>m file_data. rd (os_path_join package filepath) = Inl (FileNotFoundError m)
          \<and> pk package filepath = Inr (Some file_data)
        \<longrightarrow> get_package_file_contents rd pk dec package filepath
              = (case dec file_data of None \<Rightarrow> Inl UnicodeDecodeError | Some s \<Rightarrow> Inr s))
   \<and> (\<forall>m raised. rd (os_path_join package filepath) = Inl (FileNotFoundError m)
          \<and> pk package filepath = Inl raised
        \<longrightarrow> get_package_file_contents rd pk dec package filepath = Inl raised)"
proof (intro conjI allI impI)
  fix m
  show "get_package_file_contents rd pk dec package filepath = Inl (FileNotFoundError m)
        \<longleftrightarrow> (\<exists>m0. rd (os_path_join package filepath) = Inl (FileNotFoundError m0)
                \<and> (pk package filepath = Inr None \<and> m = m0
                    \<or> pk package filepath = Inl (FileNotFoundError m)))"
  proof (cases "rd (os_path_join package filepath)")
    case (Inr contents)
    then show ?thesis by (simp add: get_package_file_contents_def)
  next
    case (Inl e)
    show ?thesis
    proof (cases "is_FileNotFoundError e")
      case False
      with Inl show ?thesis
        by (auto simp: get_package_file_contents_def is_FileNotFoundError_def)
    next
      case True
      then obtain m0 where e: "e = FileNotFoundError m0"
        by (cases e) (simp_all add: is_FileNotFoundError_def)
      show ?thesis
      proof (cases "pk package filepath")
        case raised: (Inl x)
        with Inl e show ?thesis
          by (simp add: get_package_file_contents_def is_FileNotFoundError_def)
      next
        case returned: (Inr found)
        show ?thesis
        proof (cases found)
          case None
          with Inl e returned show ?thesis
            by (auto simp: get_package_file_contents_def is_FileNotFoundError_def)
        next
          case (Some file_data)
          with Inl e returned show ?thesis
            by (simp add: get_package_file_contents_def is_FileNotFoundError_def
                split: option.splits)
        qed
      qed
    qed
  qed
next
  fix m file_data
  assume "rd (os_path_join package filepath) = Inl (FileNotFoundError m)
          \<and> pk package filepath = Inr (Some file_data)"
  then show "get_package_file_contents rd pk dec package filepath
              = (case dec file_data of None \<Rightarrow> Inl UnicodeDecodeError | Some s \<Rightarrow> Inr s)"
    by (simp add: get_package_file_contents_def is_FileNotFoundError_def)
next
  fix m raised
  assume "rd (os_path_join package filepath) = Inl (FileNotFoundError m)
          \<and> pk package filepath = Inl raised"
  then show "get_package_file_contents rd pk dec package filepath = Inl raised"
    by (simp add: get_package_file_contents_def is_FileNotFoundError_def)
qed

text \<open>
  The asset missing on disk: with no package data the loader fails with the missing-file
  error of the direct read; with package data it returns the decoded data.
\<close>

theorem get_package_file_contents_not_found_witness:
  "get_package_file_contents missing_file no_package_data ascii_decode ''assets'' ''constants.ts''
     = Inl (FileNotFoundError ''assets/constants.ts'')
   \<and> get_package_file_contents missing_file packaged_data ascii_decode ''assets'' ''constants.ts''
     = Inr ''{}''"
proof
  have direct: "missing_file (os_path_join ''assets'' ''constants.ts'')
                  = Inl (FileNotFoundError ''assets/constants.ts'')"
    by (simp add: missing_file_def os_path_join_def)
  have absent: "no_package_data ''assets'' ''constants.ts'' = Inr None"
    by (simp add: no_package_data_def)
  from get_package_file_contents_not_found
         [of missing_file no_package_data ascii_decode "''assets''" "''constants.ts''"]
       direct absent
  show "get_package_file_contents missing_file no_package_data ascii_decode
          ''assets'' ''constants.ts'' = Inl (FileNotFoundError ''assets/constants.ts'')"
    by blast
  have present: "packaged_data ''assets'' ''constants.ts'' = Inr (Some ''{}'')"
    by (simp add: packaged_data_def)
  have decoded: "ascii_decode ''{}'' = Some ''{}''"
    by (simp add: ascii_decode_def)
  from get_package_file_contents_not_found
         [of missing_file packaged_data ascii_decode "''assets''" "''constants.ts''"]
       direct present
  have "get_package_file_contents missing_file packaged_data ascii_decode
          ''assets'' ''constants.ts''
        = (case ascii_decode ''{}'' of None \<Rightarrow> Inl UnicodeDecodeError | Some s \<Rightarrow> Inr s)"
    by blast
  with decoded
  show "get_package_file_contents missing_file packaged_data ascii_decode
          ''assets'' ''constants.ts'' = Inr ''{}''"
    by simp
qed

text \<open>
  C7 as stated fails when the package is a regular one that lacks the file: the
  packaged-resource read does not yield \<^verbatim>\<open>None\<close>, it raises, and the loader fails with
  a \<^verbatim>\<open>FileNotFoundError\<close> all the same, the package loader's and not the direct read's.
\<close>

theorem get_package_file_contents_counterexample:
  "get_package_file_contents missing_file regular_package_without_file ascii_decode
       ''assets'' ''constants.ts''
     = Inl (FileNotFoundError ''/srv/assets/constants.ts'')
   \<and> regular_package_without_file ''assets'' ''constants.ts'' \<noteq> Inr None
   \<and> missing_file (os_path_join ''assets'' ''constants.ts'')
     = Inl (FileNotFoundError ''assets/constants.ts'')"
  by (simp add: get_package_file_contents_def is_FileNotFoundError_def missing_file_def
      regular_package_without_file_def os_path_join_def)

subsection \<open>C8: item access and attribute access on a Constants table\<close>





section \<open>Properties of core/controllers/learner_group.py\<close>

subsection \<open>Unfolding a handler run\<close>

lemmas action_defs =
  and_then_def raise_exn_def render_json_def computed_def query_def command_def

lemmas call_defs =
  call_get_multi_user_ids_from_usernames_def call_get_usernames_def
  call_get_user_settings_from_username_def call_get_new_learner_group_id_def
  call_get_learner_group_by_id_def call_can_multi_students_share_progress_def
  call_is_user_facilitator_def call_can_user_be_invited_def
  call_get_multi_users_progress_in_stories_def
  call_get_multi_users_subtopic_pages_progress_def call_create_learner_group_def
  call_update_learner_group_def call_remove_learner_group_def

subsection \<open>C4: PUT by a caller who is not a facilitator\<close>

text \<open>
  C4. When the facilitator check answers no for the caller, PUT raises the
  unauthorized-user exception; the facilitator check is the only service call it has
  made, none of the mutating services is called, and the datastore is the one the
  request found.
\<close>

theorem put_by_non_facilitator_is_refused:
  assumes "is_user_facilitator sv (user_id self) gid s = Inr False"
  shows "\<exists>calls.
           LearnerGroupHandler_put sv self p gid (s, log)
             = (Inl (UnauthorizedUserException
                       ''You are not a facilitator of this learner group.''),
                s, log @ calls)
           \<and> calls = [Is_user_facilitator (user_id self) gid]
           \<and> filter is_mutation calls = []"
  using assms
  by (simp add: LearnerGroupHandler_put_def call_is_user_facilitator_def and_then_def
      query_def raise_exn_def is_mutation_def)

text \<open>Carol, a student of the group and not a facilitator, tries to update it.\<close>

theorem put_by_non_facilitator_is_refused_witness:
  "LearnerGroupHandler_put reference_services as_carol payload0 ''group1'' (world0, [])
     = (Inl (UnauthorizedUserException ''You are not a facilitator of this learner group.''),
        world0, [Is_user_facilitator ''uid_carol'' ''group1''])"
proof -
  have "is_user_facilitator reference_services (user_id as_carol) ''group1'' world0 = Inr False"
    by (simp add: reference_services_def ref_is_user_facilitator_def find_group_def
        world0_def group1_def as_carol_def)
  from put_by_non_facilitator_is_refused [OF this, of payload0 "[]"]
  show ?thesis by (simp add: as_carol_def)
qed

subsection \<open>C2: progress of a group that does not exist\<close>

text \<open>
  C2, as amended. When the usernames have been resolved and the fetcher returns no
  group for the id, the progress handler raises \<^verbatim>\<open>InvalidInputException\<close> with the
  message \<^verbatim>\<open>No such learner group exists.\<close>; the two lookups are the only service calls
  it has made, so neither the permission service nor a progress service is called, and
  the datastore is untouched.
\<close>

theorem progress_of_missing_group_is_invalid_input:
  assumes "get_multi_user_ids_from_usernames sv names s = Inr ids"
    and "get_learner_group_by_id sv gid s = Inr None"
  shows "\<exists>calls.
           LearnerGroupStudentProgressHandler_get sv self names gid (s, log)
             = (Inl (InvalidInputException ''No such learner group exists.''), s, log @ calls)
           \<and> calls = [Get_multi_user_ids_from_usernames names, Get_learner_group_by_id gid]
           \<and> filter is_progress_call calls = []"
  using assms
  by (simp add: LearnerGroupStudentProgressHandler_get_def
      call_get_multi_user_ids_from_usernames_def call_get_learner_group_by_id_def
      and_then_def query_def raise_exn_def is_progress_call_def)

theorem progress_of_missing_group_is_invalid_input_witness:
  "LearnerGroupStudentProgressHandler_get reference_services as_alice [''bob'', ''carol'']
       ''group9'' (world0, [])
     = (Inl (InvalidInputException ''No such learner group exists.''), world0,
        [Get_multi_user_ids_from_usernames [''bob'', ''carol''],
         Get_learner_group_by_id ''group9''])"
proof -
  have a: "get_multi_user_ids_from_usernames reference_services [''bob'', ''carol''] world0
             = Inr [Some ''uid_bob'', Some ''uid_carol'']"
    by (simp add: reference_services_def ref_get_multi_user_ids_from_usernames_def
        world0_def alice_def bob_def carol_def dave_def)
  have b: "get_learner_group_by_id reference_services ''group9'' world0 = Inr None"
    by (simp add: reference_services_def ref_get_learner_group_by_id_def find_group_def
        world0_def group1_def)
  from progress_of_missing_group_is_invalid_input [OF a b, of as_alice "[]"]
  show ?thesis by simp
qed

text \<open>
  C2 as stated names the wrong exception: on a group id that resolves to no group the
  handler fails with \<^verbatim>\<open>InvalidInputException\<close>, which is not the not-found exception
  \<^verbatim>\<open>PageNotFoundException\<close> the page handlers raise.
\<close>

theorem progress_of_missing_group_counterexample:
  "fst (LearnerGroupStudentProgressHandler_get reference_services as_alice [''bob'', ''carol'']
          ''group9'' (world0, []))
     = Inl (InvalidInputException ''No such learner group exists.'')
   \<and> fst (LearnerGroupStudentProgressHandler_get reference_services as_alice [''bob'', ''carol'']
          ''group9'' (world0, []))
     \<noteq> Inl PageNotFoundException"
  by (simp add: LearnerGroupStudentProgressHandler_get_def
      call_get_multi_user_ids_from_usernames_def call_get_learner_group_by_id_def
      and_then_def query_def raise_exn_def reference_services_def
      ref_get_multi_user_ids_from_usernames_def ref_get_learner_group_by_id_def
      find_group_def world0_def group1_def)

subsection \<open>C5: the student search reports its failures in the response\<close>

text \<open>
  C5, as amended. The search handler renders a response on each of its failure paths
  instead of raising. When the looked-up username does not exist, the \<open>error\<close> field
  says so. When it exists and is the caller's own (the handler compares the two after
  \<^verbatim>\<open>str.lower\<close>, so equal usernames always compare equal), the field says the caller
  cannot invite themself. Otherwise the verdict of the invitation-eligibility service
  decides: an invalid one has the service's message surfaced in the field as it is, a
  valid one gives the empty field together with the profile picture. So an empty
  \<open>error\<close> field comes from a valid invitation, or from an invalid one for which the
  service returned an empty message. The statement holds for every \<^verbatim>\<open>str.lower\<close> and
  every service layer.
\<close>

theorem search_student_failures_are_rendered:
  "(get_user_settings_from_username sv searched s = Inr None \<longrightarrow>
      LearnerGroupSearchStudentHandler_get lower sv self searched gid (s, log)
        = (Inr (JObj
                 [(''username'', JStr searched),
                  (''profile_picture_data_url'', JStr []),
                  (''error'', JStr (''User with username '' @ searched @ '' does not exist.''))]),
           s, log @ [Get_user_settings_from_username searched]))
   \<and> (get_user_settings_from_username sv searched s = Inr (Some settings)
        \<and> lower (username self) = lower searched \<longrightarrow>
      LearnerGroupSearchStudentHandler_get lower sv self searched gid (s, log)
        = (Inr (JObj
                 [(''username'', JStr (settings_username settings)),
                  (''profile_picture_data_url'', JStr []),
                  (''error'', JStr ''You cannot invite yourself to the group'')]),
           s, log @ [Get_user_settings_from_username searched]))
   \<and> (get_user_settings_from_username sv searched s = Inr (Some settings)
        \<and> lower (username self) \<noteq> lower searched
        \<and> can_user_be_invited sv (settings_user_id settings) (settings_username settings) gid s
            = Inr (False, err) \<longrightarrow>
      LearnerGroupSearchStudentHandler_get lower sv self searched gid (s, log)
        = (Inr (JObj
                 [(''username'', JStr (settings_username settings)),
                  (''profile_picture_data_url'', JStr []),
                  (''error'', JStr err)]),
           s, log @ [Get_user_settings_from_username searched,
                     Can_user_be_invited (settings_user_id settings)
                       (settings_username settings) gid]))
   \<and> (get_user_settings_from_username sv searched s = Inr (Some settings)
        \<and> lower (username self) \<noteq> lower searched
        \<and> can_user_be_invited sv (settings_user_id settings) (settings_username settings) gid s
            = Inr (True, err) \<longrightarrow>
      LearnerGroupSearchStudentHandler_get lower sv self searched gid (s, log)
        = (Inr (JObj
                 [(''username'', JStr (settings_username settings)),
                  (''profile_picture_data_url'', JStr (profile_picture_data_url settings)),
                  (''error'', JStr [])]),
           s, log @ [Get_user_settings_from_username searched,
                     Can_user_be_invited (settings_user_id settings)
                       (settings_username settings) gid]))
   \<and> (LearnerGroupSearchStudentHandler_get lower sv self searched gid (s, log) = (Inr resp, st')
        \<and> json_field ''error'' resp = Some (JStr []) \<longrightarrow>
      (\<exists>found verdict message.
          get_user_settings_from_username sv searched s = Inr (Some found)
          \<and> lower (username self) \<noteq> lower searched
          \<and> can_user_be_invited sv (settings_user_id found) (settings_username found) gid s
              = Inr (verdict, message)
          \<and> (verdict \<or> message = [])))"
proof (intro conjI impI)
  assume "get_user_settings_from_username sv searched s = Inr None"
  then show "LearnerGroupSearchStudentHandler_get lower sv self searched gid (s, log)
        = (Inr (JObj
                 [(''username'', JStr searched),
                  (''profile_picture_data_url'', JStr []),
                  (''error'', JStr (''User with username '' @ searched @ '' does not exist.''))]),
           s, log @ [Get_user_settings_from_username searched])"
    by (simp add: LearnerGroupSearchStudentHandler_get_def
        call_get_user_settings_from_username_def and_then_def query_def render_json_def)
next
  assume "get_user_settings_from_username sv searched s = Inr (Some settings)
        \<and> lower (username self) = lower searched"
  then show "LearnerGroupSearchStudentHandler_get lower sv self searched gid (s, log)
        = (Inr (JObj
                 [(''username'', JStr (settings_username settings)),
                  (''profile_picture_data_url'', JStr []),
                  (''error'', JStr ''You cannot invite yourself to the group'')]),
           s, log @ [Get_user_settings_from_username searched])"
    by (simp add: LearnerGroupSearchStudentHandler_get_def
        call_get_user_settings_from_username_def and_then_def query_def render_json_def)
next
  assume "get_user_settings_from_username sv searched s = Inr (Some settings)
        \<and> lower (username self) \<noteq> lower searched
        \<and> can_user_be_invited sv (settings_user_id settings) (settings_username settings) gid s
            = Inr (False, err)"
  then show "LearnerGroupSearchStudentHandler_get lower sv self searched gid (s, log)
        = (Inr (JObj
                 [(''username'', JStr (settings_username settings)),
                  (''profile_picture_data_url'', JStr []),
                  (''error'', JStr err)]),
           s, log @ [Get_user_settings_from_username searched,
                     Can_user_be_invited (settings_user_id settings)
                       (settings_username settings) gid])"
    by (simp add: LearnerGroupSearchStudentHandler_get_def
        call_get_user_settings_from_username_def call_can_user_be_invited_def
        and_then_def query_def render_json_def)
next
  assume "get_user_settings_from_username sv searched s = Inr (Some settings)
        \<and> lower (username self) \<noteq> lower searched
        \<and> can_user_be_invited sv (settings_user_id settings) (settings_username settings) gid s
            = Inr (True, err)"
  then show "LearnerGroupSearchStudentHandler_get lower sv self searched gid (s, log)
        = (Inr (JObj
                 [(''username'', JStr (settings_username settings)),
                  (''profile_picture_data_url'', JStr (profile_picture_data_url settings)),
                  (''error'', JStr [])]),
           s, log @ [Get_user_settings_from_username searched,
                     Can_user_be_invited (settings_user_id settings)
                       (settings_username settings) gid])"
    by (simp add: LearnerGroupSearchStudentHandler_get_def
        call_get_user_settings_from_username_def call_can_user_be_invited_def
        and_then_def query_def render_json_def)
next
  assume run: "LearnerGroupSearchStudentHandler_get lower sv self searched gid (s, log) = (Inr resp, st')
        \<and> json_field ''error'' resp = Some (JStr [])"
  show "\<exists>found verdict message.
          get_user_settings_from_username sv searched s = Inr (Some found)
          \<and> lower (username self) \<noteq> lower searched
          \<and> can_user_be_invited sv (settings_user_id found) (settings_username found) gid s
              = Inr (verdict, message)
          \<and> (verdict \<or> message = [])"
  proof (cases "get_user_settings_from_username sv searched s")
    case (Inl e)
    with run show ?thesis
      by (simp add: LearnerGroupSearchStudentHandler_get_def
          call_get_user_settings_from_username_def and_then_def query_def)
  next
    case (Inr found)
    show ?thesis
    proof (cases found)
      case None
      with Inr run show ?thesis
        by (auto simp: LearnerGroupSearchStudentHandler_get_def
            call_get_user_settings_from_username_def and_then_def query_def render_json_def
            json_field_def)
    next
      case (Some us)
      show ?thesis
      proof (cases "lower (username self) = lower searched")
        case True
        with Inr Some run show ?thesis
          by (auto simp: LearnerGroupSearchStudentHandler_get_def
              call_get_user_settings_from_username_def and_then_def query_def render_json_def
              json_field_def)
      next
        case False
        show ?thesis
        proof (cases "can_user_be_invited sv (settings_user_id us) (settings_username us) gid s")
          case (Inl e)
          with Inr Some False run show ?thesis
            by (simp add: LearnerGroupSearchStudentHandler_get_def
                call_get_user_settings_from_username_def call_can_user_be_invited_def
                and_then_def query_def)
        next
          case inv: (Inr answer)
          obtain verdict message where answer: "answer = (verdict, message)"
            by (cases answer)
          from Inr Some False inv answer run have "verdict \<or> message = []"
            by (auto simp: LearnerGroupSearchStudentHandler_get_def
                call_get_user_settings_from_username_def call_can_user_be_invited_def
                and_then_def query_def render_json_def json_field_def
                split: if_splits)
          with Inr Some False inv answer show ?thesis by auto
        qed
      qed
    qed
  qed
qed

text \<open>
  Alice searches for a username nobody has, for herself, for Carol who is in the group
  already, and for Dave whom she may invite.
\<close>

theorem search_student_failures_are_rendered_witness:
  "fst (LearnerGroupSearchStudentHandler_get ascii_lower reference_services as_alice
          ''zed'' ''group1'' (world0, []))
     = Inr (JObj
              [(''username'', JStr ''zed''),
               (''profile_picture_data_url'', JStr []),
               (''error'', JStr ''User with username zed does not exist.'')])
   \<and> fst (LearnerGroupSearchStudentHandler_get ascii_lower reference_services as_alice
          ''alice'' ''group1'' (world0, []))
     = Inr (JObj
              [(''username'', JStr ''alice''),
               (''profile_picture_data_url'', JStr []),
               (''error'', JStr ''You cannot invite yourself to the group'')])
   \<and> fst (LearnerGroupSearchStudentHandler_get ascii_lower reference_services as_alice
          ''carol'' ''group1'' (world0, []))
     = Inr (JObj
              [(''username'', JStr ''carol''),
               (''profile_picture_data_url'', JStr []),
               (''error'', JStr ''User carol is already part of the group'')])
   \<and> fst (LearnerGroupSearchStudentHandler_get ascii_lower reference_services as_alice
          ''dave'' ''group1'' (world0, []))
     = Inr (JObj
              [(''username'', JStr ''dave''),
               (''profile_picture_data_url'', JStr ''data:dave''),
               (''error'', JStr [])])"
proof -
  have zed: "get_user_settings_from_username reference_services ''zed'' world0 = Inr None"
    by (simp add: reference_services_def ref_get_user_settings_from_username_def world0_def
        alice_def bob_def carol_def dave_def)
  have me: "get_user_settings_from_username reference_services ''alice'' world0 = Inr (Some alice)
            \<and> ascii_lower (username as_alice) = ascii_lower ''alice''"
    by (simp add: reference_services_def ref_get_user_settings_from_username_def world0_def
        alice_def as_alice_def)
  have member: "get_user_settings_from_username reference_services ''carol'' world0
                 = Inr (Some carol)
            \<and> ascii_lower (username as_alice) \<noteq> ascii_lower ''carol''
            \<and> can_user_be_invited reference_services (settings_user_id carol)
                 (settings_username carol) ''group1'' world0
               = Inr (False, ''User carol is already part of the group'')"
    by (simp add: reference_services_def ref_get_user_settings_from_username_def
        ref_can_user_be_invited_def find_group_def world0_def group1_def
        alice_def bob_def carol_def as_alice_def ascii_lower_def lower_char_def)
  have newcomer: "get_user_settings_from_username reference_services ''dave'' world0
                 = Inr (Some dave)
            \<and> ascii_lower (username as_alice) \<noteq> ascii_lower ''dave''
            \<and> can_user_be_invited reference_services (settings_user_id dave)
                 (settings_username dave) ''group1'' world0
               = Inr (True, [])"
    by (simp add: reference_services_def ref_get_user_settings_from_username_def
        ref_can_user_be_invited_def find_group_def world0_def group1_def
        alice_def bob_def carol_def dave_def as_alice_def ascii_lower_def lower_char_def)
  from search_student_failures_are_rendered
         [where sv = reference_services and searched = "''zed''" and s = world0
            and lower = ascii_lower and self = as_alice and gid = "''group1''" and log = "[]"]
       zed
  have a: "fst (LearnerGroupSearchStudentHandler_get ascii_lower reference_services as_alice
          ''zed'' ''group1'' (world0, []))
     = Inr (JObj
              [(''username'', JStr ''zed''),
               (''profile_picture_data_url'', JStr []),
               (''error'', JStr ''User with username zed does not exist.'')])"
    by simp
  from search_student_failures_are_rendered
         [where sv = reference_services and searched = "''alice''" and s = world0
            and lower = ascii_lower and self = as_alice and gid = "''group1''" and log = "[]"
            and settings = alice]
       me
  have b: "fst (LearnerGroupSearchStudentHandler_get ascii_lower reference_services as_alice
          ''alice'' ''group1'' (world0, []))
     = Inr (JObj
              [(''username'', JStr ''alice''),
               (''profile_picture_data_url'', JStr []),
               (''error'', JStr ''You cannot invite yourself to the group'')])"
    by (simp add: alice_def)
  from search_student_failures_are_rendered
         [where sv = reference_services and searched = "''carol''" and s = world0
            and lower = ascii_lower and self = as_alice and gid = "''group1''" and log = "[]"
            and settings = carol and err = "''User carol is already part of the group''"]
       member
  have c: "fst (LearnerGroupSearchStudentHandler_get ascii_lower reference_services as_alice
          ''carol'' ''group1'' (world0, []))
     = Inr (JObj
              [(''username'', JStr ''carol''),
               (''profile_picture_data_url'', JStr []),
               (''error'', JStr ''User carol is already part of the group'')])"
    by (simp add: carol_def)
  from search_student_failures_are_rendered
         [where sv = reference_services and searched = "''dave''" and s = world0
            and lower = ascii_lower and self = as_alice and gid = "''group1''" and log = "[]"
            and settings = dave and err = "[]"]
       newcomer
  have d: "fst (LearnerGroupSearchStudentHandler_get ascii_lower reference_services as_alice
          ''dave'' ''group1'' (world0, []))
     = Inr (JObj
              [(''username'', JStr ''dave''),
               (''profile_picture_data_url'', JStr ''data:dave''),
               (''error'', JStr [])])"
    by (simp add: dave_def)
  from a b c d show ?thesis by simp
qed

text \<open>
  C5 as stated fails in its last clause when the eligibility service refuses without a
  message: Alice searches for Dave, the invitation is not valid, and the \<open>error\<close> field
  of the response is empty.
\<close>

theorem search_student_empty_error_counterexample:
  "can_user_be_invited refusing_without_reason ''uid_dave'' ''dave'' ''group1'' world0
     = Inr (False, [])
   \<and> fst (LearnerGroupSearchStudentHandler_get ascii_lower refusing_without_reason as_alice
          ''dave'' ''group1'' (world0, []))
     = Inr (JObj
            [(''username'', JStr ''dave''),
             (''profile_picture_data_url'', JStr []),
             (''error'', JStr [])])"
  by (simp add: LearnerGroupSearchStudentHandler_get_def
      call_get_user_settings_from_username_def call_can_user_be_invited_def
      and_then_def query_def render_json_def refusing_without_reason_def
      reference_services_def ref_get_user_settings_from_username_def world0_def
      alice_def bob_def carol_def dave_def as_alice_def ascii_lower_def lower_char_def)

subsection \<open>What a successful POST or PUT has done\<close>

lemma learner_group_dict_returns:
  assumes "learner_group_dict sv g (s, log) = (Inr resp, st')"
  obtains facs studs inv where
    "get_usernames sv (facilitator_user_ids g) s = Inr facs"
    "get_usernames sv (student_user_ids g) s = Inr studs"
    "get_usernames sv (invited_student_user_ids g) s = Inr inv"
    "resp = JObj
       [(''id'', JStr (group_id g)),
        (''title'', json_optional_str (title g)),
        (''description'', json_optional_str (description g)),
        (''facilitator_usernames'', JList (map json_optional_str facs)),
        (''student_usernames'', JList (map json_optional_str studs)),
        (''invited_student_usernames'', JList (map json_optional_str inv)),
        (''subtopic_page_ids'', JList (map JStr (subtopic_page_ids g))),
        (''story_ids'', JList (map JStr (story_ids g)))]"
    "st' = (s, log @ [Get_usernames (facilitator_user_ids g),
                      Get_usernames (student_user_ids g),
                      Get_usernames (invited_student_user_ids g)])"
  using assms
  by (auto simp: learner_group_dict_def call_get_usernames_def and_then_def query_def
      render_json_def split: sum.splits)

lemma post_returns:
  assumes "CreateLearnerGroupHandler_post sv self p (s, log) = (Inr resp, st')"
  obtains ids new_id g s' where
    "get_multi_user_ids_from_usernames sv (invited_student_usernames p) s = Inr ids"
    "get_new_learner_group_id sv s = Inr new_id"
    "create_learner_group sv new_id (group_title p) (group_description p)
       [Some (user_id self)] ids (payload_subtopic_page_ids p) (payload_story_ids p) s
     = (Inr g, s')"
    "learner_group_dict sv g
       (s', log @ [Get_multi_user_ids_from_usernames (invited_student_usernames p),
                   Get_new_learner_group_id,
                   Create_learner_group new_id (group_title p) (group_description p)
                     [Some (user_id self)] ids (payload_subtopic_page_ids p)
                     (payload_story_ids p)])
     = (Inr resp, st')"
  using assms
  by (auto simp: CreateLearnerGroupHandler_post_def call_get_multi_user_ids_from_usernames_def
      call_get_new_learner_group_id_def call_create_learner_group_def and_then_def query_def
      command_def split: sum.splits prod.splits)

lemma put_returns:
  assumes "LearnerGroupHandler_put sv self p gid (s, log) = (Inr resp, st')"
  obtains students invited g s' where
    "is_user_facilitator sv (user_id self) gid s = Inr True"
    "get_multi_user_ids_from_usernames sv (student_usernames p) s = Inr students"
    "get_multi_user_ids_from_usernames sv (invited_student_usernames p) s = Inr invited"
    "update_learner_group sv gid (group_title p) (group_description p)
       [Some (user_id self)] students invited (payload_subtopic_page_ids p)
       (payload_story_ids p) s
     = (Inr g, s')"
    "learner_group_dict sv g
       (s', log @ [Is_user_facilitator (user_id self) gid,
                   Get_multi_user_ids_from_usernames (student_usernames p),
                   Get_multi_user_ids_from_usernames (invited_student_usernames p),
                   Update_learner_group gid (group_title p) (group_description p)
                     [Some (user_id self)] students invited (payload_subtopic_page_ids p)
                     (payload_story_ids p)])
     = (Inr resp, st')"
  using assms
  by (auto simp: LearnerGroupHandler_put_def call_is_user_facilitator_def
      call_get_multi_user_ids_from_usernames_def call_update_learner_group_def
      and_then_def query_def command_def raise_exn_def
      split: sum.splits prod.splits if_splits)

lemma find_after_replace:
  assumes "find P xs = Some old" and "P new"
  shows "find P (map (\<lambda>x. if P x then new else x) xs) = Some new"
  using assms by (induction xs) (auto split: if_splits)

lemma ref_update_stores_the_group:
  assumes "ref_update_learner_group gid t d facs students invited pids sids w = (Inr g, w')"
  shows "find_group gid w' = Some g \<and> facilitator_user_ids g = facs"
proof -
  from assms obtain old where old: "find_group gid w = Some old"
    by (auto simp: ref_update_learner_group_def split: option.splits)
  let ?g = "\<lparr>group_id = gid, title = t, description = d, facilitator_user_ids = facs,
             student_user_ids = students, invited_student_user_ids = invited,
             subtopic_page_ids = pids, story_ids = sids\<rparr>"
  from assms old have g: "g = ?g"
    and w': "w' = w\<lparr>groups := map (\<lambda>x. if group_id x = gid then ?g else x) (groups w)\<rparr>"
    by (auto simp: ref_update_learner_group_def Let_def)
  from old have "find (\<lambda>x. group_id x = gid) (groups w) = Some old"
    by (simp add: find_group_def)
  then have "find (\<lambda>x. group_id x = gid)
               (map (\<lambda>x. if group_id x = gid then ?g else x) (groups w)) = Some ?g"
    by (rule find_after_replace) simp
  with g w' show ?thesis by (simp add: find_group_def)
qed

subsection \<open>C9: the facilitator list handed to the domain service\<close>

text \<open>
  C9. A successful POST has made exactly one mutating service call, the
  \<^verbatim>\<open>create_learner_group\<close> call, and a successful PUT exactly one, the
  \<^verbatim>\<open>update_learner_group\<close> call; in both the facilitator list argument is the one-element
  list holding the caller's id. With an update service that replaces the stored group in
  full (the reference environment), the group stored after a successful PUT has the
  caller as its only facilitator, whatever the datastore held before.
\<close>

theorem facilitator_list_is_the_caller_alone:
  "(CreateLearnerGroupHandler_post sv self p (s, log) = (Inr resp, s', log') \<longrightarrow>
      (\<exists>new_id invited.
          filter is_mutation (drop (length log) log')
            = [Create_learner_group new_id (group_title p) (group_description p)
                 [Some (user_id self)] invited (payload_subtopic_page_ids p)
                 (payload_story_ids p)]))
   \<and> (LearnerGroupHandler_put sv self p gid (s, log) = (Inr resp, s', log') \<longrightarrow>
      (\<exists>students invited.
          filter is_mutation (drop (length log) log')
            = [Update_learner_group gid (group_title p) (group_description p)
                 [Some (user_id self)] students invited (payload_subtopic_page_ids p)
                 (payload_story_ids p)]))
   \<and> (LearnerGroupHandler_put reference_services self p gid (w, log) = (Inr resp, w', log') \<longrightarrow>
      (\<exists>g. find_group gid w' = Some g \<and> facilitator_user_ids g = [Some (user_id self)]))"
proof (intro conjI impI)
  assume run: "CreateLearnerGroupHandler_post sv self p (s, log) = (Inr resp, s', log')"
  from run obtain ids new_id g s1 where
    dict: "learner_group_dict sv g
       (s1, log @ [Get_multi_user_ids_from_usernames (invited_student_usernames p),
                   Get_new_learner_group_id,
                   Create_learner_group new_id (group_title p) (group_description p)
                     [Some (user_id self)] ids (payload_subtopic_page_ids p)
                     (payload_story_ids p)])
       = (Inr resp, s', log')"
    by (rule post_returns)
  from dict have "log' = log @ [Get_multi_user_ids_from_usernames (invited_student_usernames p),
                   Get_new_learner_group_id,
                   Create_learner_group new_id (group_title p) (group_description p)
                     [Some (user_id self)] ids (payload_subtopic_page_ids p)
                     (payload_story_ids p),
                   Get_usernames (facilitator_user_ids g),
                   Get_usernames (student_user_ids g),
                   Get_usernames (invited_student_user_ids g)]"
    by (elim learner_group_dict_returns) simp
  then have "filter is_mutation (drop (length log) log')
            = [Create_learner_group new_id (group_title p) (group_description p)
                 [Some (user_id self)] ids (payload_subtopic_page_ids p)
                 (payload_story_ids p)]"
    by (simp add: is_mutation_def)
  then show "\<exists>new_id invited.
          filter is_mutation (drop (length log) log')
            = [Create_learner_group new_id (group_title p) (group_description p)
                 [Some (user_id self)] invited (payload_subtopic_page_ids p)
                 (payload_story_ids p)]"
    by blast
next
  assume run: "LearnerGroupHandler_put sv self p gid (s, log) = (Inr resp, s', log')"
  from run obtain students invited g s1 where
    dict: "learner_group_dict sv g
       (s1, log @ [Is_user_facilitator (user_id self) gid,
                   Get_multi_user_ids_from_usernames (student_usernames p),
                   Get_multi_user_ids_from_usernames (invited_student_usernames p),
                   Update_learner_group gid (group_title p) (group_description p)
                     [Some (user_id self)] students invited (payload_subtopic_page_ids p)
                     (payload_story_ids p)])
       = (Inr resp, s', log')"
    by (rule put_returns)
  from dict have "log' = log @ [Is_user_facilitator (user_id self) gid,
                   Get_multi_user_ids_from_usernames (student_usernames p),
                   Get_multi_user_ids_from_usernames (invited_student_usernames p),
                   Update_learner_group gid (group_title p) (group_description p)
                     [Some (user_id self)] students invited (payload_subtopic_page_ids p)
                     (payload_story_ids p),
                   Get_usernames (facilitator_user_ids g),
                   Get_usernames (student_user_ids g),
                   Get_usernames (invited_student_user_ids g)]"
    by (elim learner_group_dict_returns) simp
  then have "filter is_mutation (drop (length log) log')
            = [Update_learner_group gid (group_title p) (group_description p)
                 [Some (user_id self)] students invited (payload_subtopic_page_ids p)
                 (payload_story_ids p)]"
    by (simp add: is_mutation_def)
  then show "\<exists>students invited.
          filter is_mutation (drop (length log) log')
            = [Update_learner_group gid (group_title p) (group_description p)
                 [Some (user_id self)] students invited (payload_subtopic_page_ids p)
                 (payload_story_ids p)]"
    by blast
next
  assume run: "LearnerGroupHandler_put reference_services self p gid (w, log)
                 = (Inr resp, w', log')"
  from run obtain students invited g w1 st where
    upd: "update_learner_group reference_services gid (group_title p) (group_description p)
            [Some (user_id self)] students invited (payload_subtopic_page_ids p)
            (payload_story_ids p) w = (Inr g, w1)"
    and dict: "learner_group_dict reference_services g (w1, st) = (Inr resp, w', log')"
    by (rule put_returns)
  from dict have "w' = w1"
    by (elim learner_group_dict_returns) simp
  moreover from upd have "find_group gid w1 = Some g
                           \<and> facilitator_user_ids g = [Some (user_id self)]"
    by (intro ref_update_stores_the_group [where t = "group_title p"])
       (simp add: reference_services_def)
  ultimately show "\<exists>g. find_group gid w' = Some g
                       \<and> facilitator_user_ids g = [Some (user_id self)]"
    by blast
qed

lemma post_on_world0:
  "CreateLearnerGroupHandler_post reference_services as_alice payload0 (world0, [])
     = (Inr (JObj
          [(''id'', JStr ''group2''), (''title'', JStr ''Geometry''),
           (''description'', JStr ''Term 2''),
           (''facilitator_usernames'', JList [JStr ''alice'']),
           (''student_usernames'', JList []),
           (''invited_student_usernames'', JList [JStr ''bob'']),
           (''subtopic_page_ids'', JList [JStr ''topic2:1'']),
           (''story_ids'', JList [JStr ''story2''])]),
        world0\<lparr>groups := [group1,
           \<lparr>group_id = ''group2'', title = Some ''Geometry'', description = Some ''Term 2'',
            facilitator_user_ids = [Some ''uid_alice''], student_user_ids = [],
            invited_student_user_ids = [Some ''uid_bob''],
            subtopic_page_ids = [''topic2:1''], story_ids = [''story2'']\<rparr>]\<rparr>,
        [Get_multi_user_ids_from_usernames [''bob''], Get_new_learner_group_id,
         Create_learner_group ''group2'' (Some ''Geometry'') (Some ''Term 2'')
           [Some ''uid_alice''] [Some ''uid_bob''] [''topic2:1''] [''story2''],
         Get_usernames [Some ''uid_alice''], Get_usernames [],
         Get_usernames [Some ''uid_bob'']])"
  by (simp add: CreateLearnerGroupHandler_post_def learner_group_dict_def call_defs action_defs
      reference_services_def ref_get_multi_user_ids_from_usernames_def
      ref_get_new_learner_group_id_def ref_create_learner_group_def ref_get_usernames_def
      json_optional_str_def world0_def payload0_def as_alice_def Let_def
      alice_def bob_def carol_def dave_def)

lemma put_on_world0:
  "LearnerGroupHandler_put reference_services as_bob payload0 ''group1'' (world0, [])
     = (Inr (JObj
          [(''id'', JStr ''group1''), (''title'', JStr ''Geometry''),
           (''description'', JStr ''Term 2''),
           (''facilitator_usernames'', JList [JStr ''bob'']),
           (''student_usernames'', JList [JStr ''carol'']),
           (''invited_student_usernames'', JList [JStr ''bob'']),
           (''subtopic_page_ids'', JList [JStr ''topic2:1'']),
           (''story_ids'', JList [JStr ''story2''])]),
        world0\<lparr>groups :=
          [\<lparr>group_id = ''group1'', title = Some ''Geometry'', description = Some ''Term 2'',
            facilitator_user_ids = [Some ''uid_bob''], student_user_ids = [Some ''uid_carol''],
            invited_student_user_ids = [Some ''uid_bob''],
            subtopic_page_ids = [''topic2:1''], story_ids = [''story2'']\<rparr>]\<rparr>,
        [Is_user_facilitator ''uid_bob'' ''group1'',
         Get_multi_user_ids_from_usernames [''carol''],
         Get_multi_user_ids_from_usernames [''bob''],
         Update_learner_group ''group1'' (Some ''Geometry'') (Some ''Term 2'')
           [Some ''uid_bob''] [Some ''uid_carol''] [Some ''uid_bob''] [''topic2:1''] [''story2''],
         Get_usernames [Some ''uid_bob''], Get_usernames [Some ''uid_carol''],
         Get_usernames [Some ''uid_bob'']])"
  by (simp add: LearnerGroupHandler_put_def learner_group_dict_def call_defs action_defs
      reference_services_def ref_is_user_facilitator_def
      ref_get_multi_user_ids_from_usernames_def ref_update_learner_group_def
      ref_get_usernames_def find_group_def json_optional_str_def world0_def group1_def
      payload0_def as_bob_def Let_def alice_def bob_def carol_def dave_def)

text \<open>
  Alice creates a group; Bob updates the group that he and Alice facilitate, and is its
  only facilitator afterwards.
\<close>

theorem facilitator_list_is_the_caller_alone_witness:
  "(\<exists>new_id invited.
      filter is_mutation
        (snd (snd (CreateLearnerGroupHandler_post reference_services as_alice payload0
                     (world0, []))))
        = [Create_learner_group new_id (Some ''Geometry'') (Some ''Term 2'')
             [Some ''uid_alice''] invited [''topic2:1''] [''story2'']])
   \<and> facilitator_user_ids group1 = [Some ''uid_alice'', Some ''uid_bob'']
   \<and> (\<exists>g. find_group ''group1''
              (fst (snd (LearnerGroupHandler_put reference_services as_bob payload0 ''group1''
                           (world0, []))))
            = Some g
          \<and> facilitator_user_ids g = [Some ''uid_bob''])"
proof (intro conjI)
  from facilitator_list_is_the_caller_alone
         [of reference_services as_alice payload0 world0 "[]", THEN conjunct1, rule_format,
          OF post_on_world0]
  show "\<exists>new_id invited.
      filter is_mutation
        (snd (snd (CreateLearnerGroupHandler_post reference_services as_alice payload0
                     (world0, []))))
        = [Create_learner_group new_id (Some ''Geometry'') (Some ''Term 2'')
             [Some ''uid_alice''] invited [''topic2:1''] [''story2'']]"
    unfolding post_on_world0 by (simp add: payload0_def as_alice_def)
next
  show "facilitator_user_ids group1 = [Some ''uid_alice'', Some ''uid_bob'']"
    by (simp add: group1_def)
next
  from facilitator_list_is_the_caller_alone
         [where self = as_bob and p = payload0 and gid = "''group1''" and w = world0
            and log = "[]", THEN conjunct2, THEN conjunct2, rule_format, OF put_on_world0]
  show "\<exists>g. find_group ''group1''
              (fst (snd (LearnerGroupHandler_put reference_services as_bob payload0 ''group1''
                           (world0, []))))
            = Some g
          \<and> facilitator_user_ids g = [Some ''uid_bob'']"
    unfolding put_on_world0 by (simp add: as_bob_def)
qed

subsection \<open>C1: the usernames in the response to a create request\<close>

text \<open>
  C1, as amended. The create handler never reads the submitted \<^verbatim>\<open>student_usernames\<close>:
  changing them changes nothing in what POST does. After a successful POST the
  \<^verbatim>\<open>student_usernames\<close> of the response are the usernames resolved from the student ids
  of the group the domain service created. The field that goes round is
  \<^verbatim>\<open>invited_student_usernames\<close>: the submitted invited usernames are resolved to ids, the
  ids are handed to \<^verbatim>\<open>create_learner_group\<close>, and the response lists the usernames
  resolved from the invited ids of the created group; it is the submitted list itself
  when the service stored the ids it was given and \<^verbatim>\<open>get_usernames\<close> takes them back to
  the submitted names.
\<close>

theorem create_response_usernames:
  "CreateLearnerGroupHandler_post sv self (p\<lparr>student_usernames := other\<rparr>)
     = CreateLearnerGroupHandler_post sv self p
   \<and> (CreateLearnerGroupHandler_post sv self p (s, log) = (Inr resp, s', log') \<longrightarrow>
      (\<exists>ids new_id g students invited.
          get_multi_user_ids_from_usernames sv (invited_student_usernames p) s = Inr ids
          \<and> create_learner_group sv new_id (group_title p) (group_description p)
               [Some (user_id self)] ids (payload_subtopic_page_ids p) (payload_story_ids p) s
             = (Inr g, s')
          \<and> get_usernames sv (student_user_ids g) s' = Inr students
          \<and> get_usernames sv (invited_student_user_ids g) s' = Inr invited
          \<and> json_field ''student_usernames'' resp
               = Some (JList (map json_optional_str students))
          \<and> json_field ''invited_student_usernames'' resp
               = Some (JList (map json_optional_str invited))
          \<and> (invited_student_user_ids g = ids
               \<and> get_usernames sv ids s' = Inr (map Some (invited_student_usernames p)) \<longrightarrow>
             json_field ''invited_student_usernames'' resp
               = Some (JList (map JStr (invited_student_usernames p))))))"
proof (intro conjI impI)
  show "CreateLearnerGroupHandler_post sv self (p\<lparr>student_usernames := other\<rparr>)
          = CreateLearnerGroupHandler_post sv self p"
    by (simp add: CreateLearnerGroupHandler_post_def)
next
  assume run: "CreateLearnerGroupHandler_post sv self p (s, log) = (Inr resp, s', log')"
  from run obtain ids new_id g s1 where
    ids: "get_multi_user_ids_from_usernames sv (invited_student_usernames p) s = Inr ids"
    and created: "create_learner_group sv new_id (group_title p) (group_description p)
               [Some (user_id self)] ids (payload_subtopic_page_ids p) (payload_story_ids p) s
             = (Inr g, s1)"
    and dict: "learner_group_dict sv g
       (s1, log @ [Get_multi_user_ids_from_usernames (invited_student_usernames p),
                   Get_new_learner_group_id,
                   Create_learner_group new_id (group_title p) (group_description p)
                     [Some (user_id self)] ids (payload_subtopic_page_ids p)
                     (payload_story_ids p)])
       = (Inr resp, s', log')"
    by (rule post_returns)
  from dict obtain facs students invited where
    students: "get_usernames sv (student_user_ids g) s1 = Inr students"
    and invited: "get_usernames sv (invited_student_user_ids g) s1 = Inr invited"
    and resp: "resp = JObj
       [(''id'', JStr (group_id g)),
        (''title'', json_optional_str (title g)),
        (''description'', json_optional_str (description g)),
        (''facilitator_usernames'', JList (map json_optional_str facs)),
        (''student_usernames'', JList (map json_optional_str students)),
        (''invited_student_usernames'', JList (map json_optional_str invited)),
        (''subtopic_page_ids'', JList (map JStr (subtopic_page_ids g))),
        (''story_ids'', JList (map JStr (story_ids g)))]"
    and store: "s' = s1"
    by (rule learner_group_dict_returns) auto
  from store have s1: "s1 = s'" by simp
  have f1: "json_field ''student_usernames'' resp
              = Some (JList (map json_optional_str students))"
    by (simp add: resp json_field_def)
  have f2: "json_field ''invited_student_usernames'' resp
              = Some (JList (map json_optional_str invited))"
    by (simp add: resp json_field_def)
  have f3: "invited_student_user_ids g = ids
               \<and> get_usernames sv ids s' = Inr (map Some (invited_student_usernames p)) \<longrightarrow>
             json_field ''invited_student_usernames'' resp
               = Some (JList (map JStr (invited_student_usernames p)))"
  proof
    assume roundtrip: "invited_student_user_ids g = ids
               \<and> get_usernames sv ids s' = Inr (map Some (invited_student_usernames p))"
    with invited s1 have "invited = map Some (invited_student_usernames p)" by simp
    with f2 show "json_field ''invited_student_usernames'' resp
               = Some (JList (map JStr (invited_student_usernames p)))"
      by (simp add: json_optional_str_def comp_def)
  qed
  from ids created students invited f1 f2 f3 s1
  show "\<exists>ids new_id g students invited.
          get_multi_user_ids_from_usernames sv (invited_student_usernames p) s = Inr ids
          \<and> create_learner_group sv new_id (group_title p) (group_description p)
               [Some (user_id self)] ids (payload_subtopic_page_ids p) (payload_story_ids p) s
             = (Inr g, s')
          \<and> get_usernames sv (student_user_ids g) s' = Inr students
          \<and> get_usernames sv (invited_student_user_ids g) s' = Inr invited
          \<and> json_field ''student_usernames'' resp
               = Some (JList (map json_optional_str students))
          \<and> json_field ''invited_student_usernames'' resp
               = Some (JList (map json_optional_str invited))
          \<and> (invited_student_user_ids g = ids
               \<and> get_usernames sv ids s' = Inr (map Some (invited_student_usernames p)) \<longrightarrow>
             json_field ''invited_student_usernames'' resp
               = Some (JList (map JStr (invited_student_usernames p))))"
    by blast
qed

text \<open>
  Alice creates a group, inviting Bob and naming Carol as a student: Bob comes back as
  invited, and the request answers the same whoever is named as a student.
\<close>

theorem create_response_usernames_witness:
  "CreateLearnerGroupHandler_post reference_services as_alice
       (payload0\<lparr>student_usernames := [''dave'']\<rparr>) (world0, [])
     = CreateLearnerGroupHandler_post reference_services as_alice payload0 (world0, [])
   \<and> invited_student_usernames payload0 = [''bob'']
   \<and> json_field ''invited_student_usernames''
         (projr (fst (CreateLearnerGroupHandler_post reference_services as_alice payload0
                        (world0, []))))
       = Some (JList [JStr ''bob''])"
proof (intro conjI)
  from create_response_usernames
         [where sv = reference_services and self = as_alice and p = payload0
            and other = "[''dave'']"]
  show "CreateLearnerGroupHandler_post reference_services as_alice
          (payload0\<lparr>student_usernames := [''dave'']\<rparr>) (world0, [])
        = CreateLearnerGroupHandler_post reference_services as_alice payload0 (world0, [])"
    by simp
next
  show "invited_student_usernames payload0 = [''bob'']"
    by (simp add: payload0_def)
next
  let ?w = "world0\<lparr>groups := [group1,
           \<lparr>group_id = ''group2'', title = Some ''Geometry'', description = Some ''Term 2'',
            facilitator_user_ids = [Some ''uid_alice''], student_user_ids = [],
            invited_student_user_ids = [Some ''uid_bob''],
            subtopic_page_ids = [''topic2:1''], story_ids = [''story2'']\<rparr>]\<rparr>"
  let ?resp = "JObj
          [(''id'', JStr ''group2''), (''title'', JStr ''Geometry''),
           (''description'', JStr ''Term 2''),
           (''facilitator_usernames'', JList [JStr ''alice'']),
           (''student_usernames'', JList []),
           (''invited_student_usernames'', JList [JStr ''bob'']),
           (''subtopic_page_ids'', JList [JStr ''topic2:1'']),
           (''story_ids'', JList [JStr ''story2''])]"
  from create_response_usernames
         [where sv = reference_services and self = as_alice and p = payload0
            and s = world0 and log = "[]", THEN conjunct2, rule_format, OF post_on_world0]
  obtain ids new_id g where
    ids: "get_multi_user_ids_from_usernames reference_services
            (invited_student_usernames payload0) world0 = Inr ids"
    and created: "create_learner_group reference_services new_id (group_title payload0)
               (group_description payload0) [Some (user_id as_alice)] ids
               (payload_subtopic_page_ids payload0) (payload_story_ids payload0) world0
             = (Inr g, ?w)"
    and roundtrip: "invited_student_user_ids g = ids
               \<and> get_usernames reference_services ids ?w
                   = Inr (map Some (invited_student_usernames payload0)) \<longrightarrow>
             json_field ''invited_student_usernames'' ?resp
               = Some (JList (map JStr (invited_student_usernames payload0)))"
    by blast
  from ids have ids_bob: "ids = [Some ''uid_bob'']"
    by (simp add: reference_services_def ref_get_multi_user_ids_from_usernames_def
        payload0_def world0_def alice_def bob_def)
  from created have stored: "invited_student_user_ids g = ids"
    by (auto simp: reference_services_def ref_create_learner_group_def Let_def)
  have names: "get_usernames reference_services ids ?w
                 = Inr (map Some (invited_student_usernames payload0))"
    by (simp add: ids_bob reference_services_def ref_get_usernames_def payload0_def
        world0_def alice_def bob_def)
  from roundtrip stored names
  have "json_field ''invited_student_usernames'' ?resp
          = Some (JList (map JStr (invited_student_usernames payload0)))"
    by blast
  then show "json_field ''invited_student_usernames''
         (projr (fst (CreateLearnerGroupHandler_post reference_services as_alice payload0
                        (world0, []))))
       = Some (JList [JStr ''bob''])"
    unfolding post_on_world0 by (simp add: payload0_def)
qed

text \<open>
  C1 as stated fails: Alice submits Carol as a student, and the response lists no
  student at all, because the ids handed to \<^verbatim>\<open>create_learner_group\<close> are the invited
  ones only.
\<close>

theorem create_response_usernames_counterexample:
  "student_usernames payload0 = [''carol'']
   \<and> json_field ''student_usernames''
        (projr (fst (CreateLearnerGroupHandler_post reference_services as_alice payload0
                       (world0, []))))
      = Some (JList [])"
  unfolding post_on_world0 by (simp add: payload0_def json_field_def)

subsection \<open>The two loops of the progress handler\<close>


lemma students_with_progress_sharing_on_total:
  assumes "i + length ids \<le> length perms"
  shows "students_with_progress_sharing_on perms i ids acc
           = Inr (acc @ map fst (filter snd (zip ids (drop i perms))))"
  using assms
proof (induction ids arbitrary: i acc)
  case Nil
  then show ?case by simp
next
  case (Cons uid rest)
  from Cons.prems have i: "i < length perms" and rest: "Suc i + length rest \<le> length perms"
    by simp_all
  from i have split: "drop i perms = perms ! i # drop (Suc i) perms"
    by (simp add: Cons_nth_drop_Suc)
  from Cons.IH [OF rest] i split show ?case by simp
qed

lemma all_students_progress_returns:
  assumes "all_students_progress names perms stories subtopics i ids acc = Inr recs"
  shows "\<exists>tail. recs = acc @ tail \<and> length tail = length ids
           \<and> (\<forall>k<length ids.
                 i + k < length names \<and> i + k < length perms
                 \<and> (if \<not> perms ! (i + k)
                     then tail ! k
                            = student_progress_dict (names ! (i + k)) False (JList []) (JList [])
                     else \<exists>sp stp. stories (ids ! k) = Some sp \<and> subtopics (ids ! k) = Some stp
                            \<and> tail ! k = student_progress_dict (names ! (i + k)) True sp stp))"
  using assms
proof (induction ids arbitrary: i acc)
  case Nil
  then show ?case by simp
next
  case (Cons uid rest)
  from Cons.prems have bounds: "i < length names" "i < length perms"
    by (simp_all split: if_splits)
  obtain r where
    rec: "all_students_progress names perms stories subtopics (Suc i) rest (acc @ [r]) = Inr recs"
    and r: "if \<not> perms ! i
            then r = student_progress_dict (names ! i) False (JList []) (JList [])
            else \<exists>sp stp. stories uid = Some sp \<and> subtopics uid = Some stp
                   \<and> r = student_progress_dict (names ! i) True sp stp"
  proof (cases "perms ! i")
    case False
    with Cons.prems bounds that show ?thesis by simp
  next
    case True
    with Cons.prems bounds that show ?thesis
      by (auto split: option.splits)
  qed
  from Cons.IH [OF rec] obtain tail where
    tail: "recs = (acc @ [r]) @ tail" "length tail = length rest"
    and each: "\<forall>k<length rest.
                 Suc i + k < length names \<and> Suc i + k < length perms
                 \<and> (if \<not> perms ! (Suc i + k)
                     then tail ! k
                            = student_progress_dict (names ! (Suc i + k)) False
                                (JList []) (JList [])
                     else \<exists>sp stp. stories (rest ! k) = Some sp \<and> subtopics (rest ! k) = Some stp
                            \<and> tail ! k
                               = student_progress_dict (names ! (Suc i + k)) True sp stp)"
    by blast
  have every: "\<forall>k<length (uid # rest).
                 i + k < length names \<and> i + k < length perms
                 \<and> (if \<not> perms ! (i + k)
                     then (r # tail) ! k
                            = student_progress_dict (names ! (i + k)) False (JList []) (JList [])
                     else \<exists>sp stp. stories ((uid # rest) ! k) = Some sp
                            \<and> subtopics ((uid # rest) ! k) = Some stp
                            \<and> (r # tail) ! k
                               = student_progress_dict (names ! (i + k)) True sp stp)"
  proof (intro allI impI)
    fix k assume k: "k < length (uid # rest)"
    show "i + k < length names \<and> i + k < length perms
                 \<and> (if \<not> perms ! (i + k)
                     then (r # tail) ! k
                            = student_progress_dict (names ! (i + k)) False (JList []) (JList [])
                     else \<exists>sp stp. stories ((uid # rest) ! k) = Some sp
                            \<and> subtopics ((uid # rest) ! k) = Some stp
                            \<and> (r # tail) ! k
                               = student_progress_dict (names ! (i + k)) True sp stp)"
    proof (cases k)
      case 0
      with bounds r show ?thesis by (auto split: if_splits)
    next
      case (Suc k')
      with k have k': "k' < length rest" by simp
      from each [rule_format, OF k'] Suc show ?thesis
        by (auto split: if_splits)
    qed
  qed
  show ?case
  proof (intro exI [of _ "r # tail"] conjI)
    from tail(1) show "recs = acc @ r # tail" by simp
    from tail(2) show "length (r # tail) = length (uid # rest)" by simp
    from every show "\<forall>k<length (uid # rest).
                 i + k < length names \<and> i + k < length perms
                 \<and> (if \<not> perms ! (i + k)
                     then (r # tail) ! k
                            = student_progress_dict (names ! (i + k)) False (JList []) (JList [])
                     else \<exists>sp stp. stories ((uid # rest) ! k) = Some sp
                            \<and> subtopics ((uid # rest) ! k) = Some stp
                            \<and> (r # tail) ! k
                               = student_progress_dict (names ! (i + k)) True sp stp)" .
  qed
qed

lemma all_students_progress_total:
  assumes "i + length ids \<le> length names" and "i + length ids \<le> length perms"
    and "\<forall>k<length ids. perms ! (i + k) \<longrightarrow>
           stories (ids ! k) \<noteq> None \<and> subtopics (ids ! k) \<noteq> None"
  shows "\<exists>recs. all_students_progress names perms stories subtopics i ids acc = Inr recs"
  using assms
proof (induction ids arbitrary: i acc)
  case Nil
  then show ?case by simp
next
  case (Cons uid rest)
  from Cons.prems(1,2) have bounds: "i < length names" "i < length perms"
    and rest: "Suc i + length rest \<le> length names" "Suc i + length rest \<le> length perms"
    by simp_all
  have keys: "\<forall>k<length rest. perms ! (Suc i + k) \<longrightarrow>
           stories (rest ! k) \<noteq> None \<and> subtopics (rest ! k) \<noteq> None"
  proof (intro allI impI)
    fix k assume "k < length rest" and "perms ! (Suc i + k)"
    then have "Suc k < length (uid # rest)" and "perms ! (i + Suc k)" by simp_all
    with Cons.prems(3) have "stories ((uid # rest) ! Suc k) \<noteq> None
                              \<and> subtopics ((uid # rest) ! Suc k) \<noteq> None"
      by blast
    then show "stories (rest ! k) \<noteq> None \<and> subtopics (rest ! k) \<noteq> None" by simp
  qed
  note step = Cons.IH [OF rest keys]
  show ?case
  proof (cases "perms ! i")
    case False
    with bounds step show ?thesis by simp
  next
    case True
    with Cons.prems(3) have "stories uid \<noteq> None \<and> subtopics uid \<noteq> None"
      by force
    then obtain sp stp where "stories uid = Some sp" "subtopics uid = Some stp"
      by auto
    with True bounds step show ?thesis by simp
  qed
qed



subsection \<open>C3: students who do not share their progress\<close>



subsection \<open>C10: one record per requested username\<close>

text \<open>
  C10. Let the group exist and the services return aligned results: one user id per
  requested username, at least one permission per user id, and progress dictionaries
  that have an entry for every sharing student. Then the GET succeeds, and its
  \<open>students_progress\<close> list has exactly one record per requested username, in request
  order: the record at position \<open>i\<close> carries the username at position \<open>i\<close> of the request
  and the sharing flag at position \<open>i\<close> of the permission result.
\<close>

theorem progress_records_follow_the_request:
  assumes ids: "get_multi_user_ids_from_usernames sv names s = Inr ids"
    and g: "get_learner_group_by_id sv gid s = Inr (Some g)"
    and perms: "can_multi_students_share_progress sv ids gid s = Inr perms"
    and stories: "get_multi_users_progress_in_stories sv
                    (map fst (filter snd (zip ids perms))) (story_ids g) s = Inr stories"
    and subtopics: "get_multi_users_subtopic_pages_progress sv
                    (map fst (filter snd (zip ids perms))) (subtopic_page_ids g) s
                    = Inr subtopics"
    and one_id_each: "length ids = length names"
    and one_flag_each: "length ids \<le> length perms"
    and entries: "\<forall>u\<in>set (map fst (filter snd (zip ids perms))).
                    stories u \<noteq> None \<and> subtopics u \<noteq> None"
  shows "\<exists>records st'.
           LearnerGroupStudentProgressHandler_get sv self names gid (s, log)
             = (Inr (JObj [(''students_progress'', JList records)]), st')
           \<and> length records = length names
           \<and> (\<forall>i<length names.
                 json_field ''username'' (records ! i) = Some (JStr (names ! i))
                 \<and> json_field ''progress_sharing_is_turned_on'' (records ! i)
                     = Some (JBool (perms ! i)))"
proof -
  let ?sharing = "map fst (filter snd (zip ids perms))"
  from one_flag_each
  have sharing: "students_with_progress_sharing_on perms 0 ids [] = Inr ?sharing"
    using students_with_progress_sharing_on_total [of 0 ids perms "[]"] by simp
  have keys: "\<forall>k<length ids. perms ! (0 + k) \<longrightarrow>
                stories (ids ! k) \<noteq> None \<and> subtopics (ids ! k) \<noteq> None"
  proof (intro allI impI)
    fix k assume k: "k < length ids" and on: "perms ! (0 + k)"
    from k one_flag_each have "(ids ! k, perms ! k) \<in> set (zip ids perms)"
      by (auto simp: set_zip)
    with on have "ids ! k \<in> set ?sharing" by force
    with entries show "stories (ids ! k) \<noteq> None \<and> subtopics (ids ! k) \<noteq> None"
      by blast
  qed
  from one_id_each one_flag_each keys
  obtain records where
    loop: "all_students_progress names perms stories subtopics 0 ids [] = Inr records"
    using all_students_progress_total [of 0 ids names perms stories subtopics "[]"]
    by auto
  from all_students_progress_returns [OF loop] obtain tail where
    tail: "records = tail" "length tail = length ids"
    and each: "\<forall>k<length ids.
                 0 + k < length names \<and> 0 + k < length perms
                 \<and> (if \<not> perms ! (0 + k)
                     then tail ! k
                            = student_progress_dict (names ! (0 + k)) False (JList []) (JList [])
                     else \<exists>sp stp. stories (ids ! k) = Some sp \<and> subtopics (ids ! k) = Some stp
                            \<and> tail ! k = student_progress_dict (names ! (0 + k)) True sp stp)"
    by auto
  have fields: "\<forall>i<length names.
                 json_field ''username'' (records ! i) = Some (JStr (names ! i))
                 \<and> json_field ''progress_sharing_is_turned_on'' (records ! i)
                     = Some (JBool (perms ! i))"
  proof (intro allI impI)
    fix i assume "i < length names"
    with one_id_each have i: "i < length ids" by simp
    from each [rule_format, OF i] tail(1)
    show "json_field ''username'' (records ! i) = Some (JStr (names ! i))
                 \<and> json_field ''progress_sharing_is_turned_on'' (records ! i)
                     = Some (JBool (perms ! i))"
      by (auto simp: json_field_def student_progress_dict_def split: if_splits)
  qed
  have run: "LearnerGroupStudentProgressHandler_get sv self names gid (s, log)
          = (Inr (JObj [(''students_progress'', JList records)]),
             s, log @ [Get_multi_user_ids_from_usernames names, Get_learner_group_by_id gid,
                       Can_multi_students_share_progress ids gid,
                       Get_multi_users_progress_in_stories ?sharing (story_ids g),
                       Get_multi_users_subtopic_pages_progress ?sharing (subtopic_page_ids g)])"
    using ids g perms sharing stories subtopics loop
    by (simp add: LearnerGroupStudentProgressHandler_get_def
        call_get_multi_user_ids_from_usernames_def call_get_learner_group_by_id_def
        call_can_multi_students_share_progress_def call_get_multi_users_progress_in_stories_def
        call_get_multi_users_subtopic_pages_progress_def
        and_then_def query_def computed_def render_json_def)
  from tail one_id_each have "length records = length names" by simp
  with run fields show ?thesis by blast
qed

theorem progress_records_follow_the_request_witness:
  "\<exists>records.
      fst (LearnerGroupStudentProgressHandler_get reference_services as_alice
             [''bob'', ''carol''] ''group1'' (world0, []))
        = Inr (JObj [(''students_progress'', JList records)])
      \<and> length records = 2
      \<and> json_field ''username'' (records ! 0) = Some (JStr ''bob'')
      \<and> json_field ''progress_sharing_is_turned_on'' (records ! 0) = Some (JBool True)
      \<and> json_field ''username'' (records ! 1) = Some (JStr ''carol'')
      \<and> json_field ''progress_sharing_is_turned_on'' (records ! 1) = Some (JBool False)"
proof -
  let ?ids = "[Some ''uid_bob'', Some ''uid_carol'']"
  let ?perms = "[True, False]"
  have ids: "get_multi_user_ids_from_usernames reference_services [''bob'', ''carol''] world0
               = Inr ?ids"
    by (simp add: reference_services_def ref_get_multi_user_ids_from_usernames_def
        world0_def alice_def bob_def carol_def dave_def)
  have g: "get_learner_group_by_id reference_services ''group1'' world0 = Inr (Some group1)"
    by (simp add: reference_services_def ref_get_learner_group_by_id_def find_group_def
        world0_def group1_def)
  have perms: "can_multi_students_share_progress reference_services ?ids ''group1'' world0
                 = Inr ?perms"
    by (simp add: reference_services_def ref_can_multi_students_share_progress_def world0_def)
  have sharing: "map fst (filter snd (zip ?ids ?perms)) = [Some ''uid_bob'']"
    by simp
  have stories: "get_multi_users_progress_in_stories reference_services
                   (map fst (filter snd (zip ?ids ?perms))) (story_ids group1) world0
                 = Inr (\<lambda>k. if k \<in> set [Some ''uid_bob'']
                            then Some (progress_of (stories_done world0) k) else None)"
    by (simp add: reference_services_def ref_get_multi_users_progress_in_stories_def)
  have subtopics: "get_multi_users_subtopic_pages_progress reference_services
                   (map fst (filter snd (zip ?ids ?perms))) (subtopic_page_ids group1) world0
                 = Inr (\<lambda>k. if k \<in> set [Some ''uid_bob'']
                            then Some (progress_of (subtopics_done world0) k) else None)"
    by (simp add: reference_services_def ref_get_multi_users_subtopic_pages_progress_def)
  have entries: "\<forall>u\<in>set (map fst (filter snd (zip ?ids ?perms))).
                   (\<lambda>k. if k \<in> set [Some ''uid_bob'']
                        then Some (progress_of (stories_done world0) k) else None) u \<noteq> None
                   \<and> (\<lambda>k. if k \<in> set [Some ''uid_bob'']
                        then Some (progress_of (subtopics_done world0) k) else None) u \<noteq> None"
    by simp
  from progress_records_follow_the_request
         [OF ids g perms stories subtopics _ _ entries, of as_alice "[]"]
  obtain records st' where
    run: "LearnerGroupStudentProgressHandler_get reference_services as_alice
            [''bob'', ''carol''] ''group1'' (world0, [])
          = (Inr (JObj [(''students_progress'', JList records)]), st')"
    and len: "length records = length [''bob'', ''carol'']"
    and fields: "\<forall>i<length [''bob'', ''carol''].
                 json_field ''username'' (records ! i) = Some (JStr ([''bob'', ''carol''] ! i))
                 \<and> json_field ''progress_sharing_is_turned_on'' (records ! i)
                     = Some (JBool (?perms ! i))"
    by auto
  from fields have "json_field ''username'' (records ! 0) = Some (JStr ''bob'')
      \<and> json_field ''progress_sharing_is_turned_on'' (records ! 0) = Some (JBool True)
      \<and> json_field ''username'' (records ! 1) = Some (JStr ''carol'')
      \<and> json_field ''progress_sharing_is_turned_on'' (records ! 1) = Some (JBool False)"
    by (simp add: All_less_Suc2 numeral_2_eq_2)
  with run len show ?thesis by auto
qed

end
